theory Spec2Isabelle
  imports Complex_Main "HOL-Library.Sublist"
begin

section \<open>Go strings, slices and runtime faults\<close>

text \<open>
  A Go string is a sequence of bytes, here a \<^typ>\<open>string\<close>. The line source
  (\<^verbatim>\<open>mscanner.Scanner\<close>) is the list of the lines it has not delivered yet:
  \<^verbatim>\<open>s.Scan()\<close> fails on the empty list and otherwise moves the head into
  \<^verbatim>\<open>s.Text()\<close>. The line number of the scanner only appears inside error
  messages and is left out of the error values.

  A slice expression or an index out of range panics in Go, and nothing in the package
  recovers, so a panic ends the whole parse. Every function that can panic returns
  \<open>fault + 'a\<close>: a slice expression out of bounds, an index out of range, or
  \<^verbatim>\<open>make\<close> with a negative length. Floating-point arithmetic never panics in Go,
  and neither does the conversion of a \<^verbatim>\<open>float64\<close> to \<^verbatim>\<open>int\<close>.
\<close>

datatype fault =
    SliceBounds
  | IndexRange
  | MakeLen

definition bindF :: "fault + 'a \<Rightarrow> ('a \<Rightarrow> fault + 'b) \<Rightarrow> fault + 'b" where
  "bindF m f = (case m of Inl x \<Rightarrow> Inl x | Inr v \<Rightarrow> f v)"

text \<open>\<^verbatim>\<open>s[i:]\<close>, \<^verbatim>\<open>s[:j]\<close>, \<^verbatim>\<open>s[i:j]\<close> and \<^verbatim>\<open>s[i]\<close>.\<close>

definition sliceFrom :: "'a list \<Rightarrow> nat \<Rightarrow> fault + 'a list" where
  "sliceFrom s i = (if i \<le> length s then Inr (drop i s) else Inl SliceBounds)"

definition sliceTo :: "'a list \<Rightarrow> nat \<Rightarrow> fault + 'a list" where
  "sliceTo s j = (if j \<le> length s then Inr (take j s) else Inl SliceBounds)"

definition slice :: "'a list \<Rightarrow> nat \<Rightarrow> nat \<Rightarrow> fault + 'a list" where
  "slice s i j = (if i \<le> j \<and> j \<le> length s then Inr (take (j - i) (drop i s)) else Inl SliceBounds)"

definition index :: "'a list \<Rightarrow> nat \<Rightarrow> fault + 'a" where
  "index s i = (if i < length s then Inr (s ! i) else Inl IndexRange)"

text \<open>
  The functions of package \<^verbatim>\<open>strings\<close> that the parser calls, on strings of
  bytes.
\<close>

definition HasPrefix :: "string \<Rightarrow> string \<Rightarrow> bool" where
  "HasPrefix s p = (take (length p) s = p)"

definition HasSuffix :: "string \<Rightarrow> string \<Rightarrow> bool" where
  "HasSuffix s p = (length p \<le> length s \<and> drop (length s - length p) s = p)"

text \<open>
  White space for \<^verbatim>\<open>strings.TrimSpace\<close> and \<^verbatim>\<open>strings.Fields\<close> is what
  \<^verbatim>\<open>unicode.IsSpace\<close> accepts: the six ASCII characters U+0009 to U+000D and U+0020,
  and the runes U+0085, U+00A0, U+1680, U+2000 to U+200A, U+2028, U+2029, U+202F, U+205F
  and U+3000, which a string holds in their UTF-8 encodings of two or three bytes. Both
  functions decode the string rune by rune, and a byte that starts no valid encoding is a
  rune of its own that is no white space. No encoding of a white space rune begins with
  a continuation byte, so none can begin inside the encoding of another rune: looking
  for one of these encodings at a position, and moving on by one byte when there is
  none, finds the same white space as the decoder. \<open>spaceWidth enc s\<close> is the number of
  bytes of the white space rune at the head of \<open>s\<close>, or 0; \<open>enc\<close> holds the
  encodings of more than one byte, as they are or reversed (for the end of a string).
\<close>

definition isSpaceASCII :: "char \<Rightarrow> bool" where
  "isSpaceASCII c = (c = CHR '' '' \<or> c = CHR 0x09 \<or> c = CHR 0x0A \<or> c = CHR 0x0B
                     \<or> c = CHR 0x0C \<or> c = CHR 0x0D)"

definition spaceRunes :: "string list" where
  "spaceRunes =
     [[CHR 0xC2, CHR 0x85], [CHR 0xC2, CHR 0xA0], [CHR 0xE1, CHR 0x9A, CHR 0x80],
      [CHR 0xE2, CHR 0x80, CHR 0x80], [CHR 0xE2, CHR 0x80, CHR 0x81],
      [CHR 0xE2, CHR 0x80, CHR 0x82], [CHR 0xE2, CHR 0x80, CHR 0x83],
      [CHR 0xE2, CHR 0x80, CHR 0x84], [CHR 0xE2, CHR 0x80, CHR 0x85],
      [CHR 0xE2, CHR 0x80, CHR 0x86], [CHR 0xE2, CHR 0x80, CHR 0x87],
      [CHR 0xE2, CHR 0x80, CHR 0x88], [CHR 0xE2, CHR 0x80, CHR 0x89],
      [CHR 0xE2, CHR 0x80, CHR 0x8A], [CHR 0xE2, CHR 0x80, CHR 0xA8],
      [CHR 0xE2, CHR 0x80, CHR 0xA9], [CHR 0xE2, CHR 0x80, CHR 0xAF],
      [CHR 0xE2, CHR 0x81, CHR 0x9F], [CHR 0xE3, CHR 0x80, CHR 0x80]]"

definition spaceWidth :: "string list \<Rightarrow> string \<Rightarrow> nat" where
  "spaceWidth enc s =
     (case s of
        [] \<Rightarrow> 0
      | c # cs \<Rightarrow>
          if isSpaceASCII c then 1
          else if (of_char c :: nat) < 128 then 0
          else (case filter (\<lambda>q. take (length q) s = q) enc of [] \<Rightarrow> 0 | q # qs \<Rightarrow> length q))"

text \<open>
  \<open>dropSpace enc k s\<close> drops \<open>k\<close> bytes and then the white space at the head of
  \<open>s\<close>.
\<close>

fun dropSpace :: "string list \<Rightarrow> nat \<Rightarrow> string \<Rightarrow> string" where
  "dropSpace enc k [] = []"
| "dropSpace enc (Suc k) (c # cs) = dropSpace enc k cs"
| "dropSpace enc 0 (c # cs) =
     (let w = spaceWidth enc (c # cs)
      in if w = 0 then c # cs else dropSpace enc (w - 1) cs)"

definition TrimSpace :: "string \<Rightarrow> string" where
  "TrimSpace s = rev (dropSpace (map rev spaceRunes) 0 (rev (dropSpace spaceRunes 0 s)))"

text \<open>\<^verbatim>\<open>strings.TrimRight(s, " ")\<close>\<close>

definition TrimRight :: "string \<Rightarrow> string" where
  "TrimRight s = rev (dropWhile (\<lambda>c. c = CHR '' '') (rev s))"

text \<open>
  \<^verbatim>\<open>strings.Fields\<close>: \<open>cur\<close> is the field being read, \<open>k\<close> the number of
  bytes of a white space rune still to pass.
\<close>

fun fieldsFrom :: "string \<Rightarrow> nat \<Rightarrow> string \<Rightarrow> string list" where
  "fieldsFrom cur k [] = (if cur = [] then [] else [cur])"
| "fieldsFrom cur (Suc k) (c # cs) = fieldsFrom cur k cs"
| "fieldsFrom cur 0 (c # cs) =
     (let w = spaceWidth spaceRunes (c # cs)
      in if w = 0 then fieldsFrom (cur @ [c]) 0 cs
         else if cur = [] then fieldsFrom [] (w - 1) cs
         else cur # fieldsFrom [] (w - 1) cs)"

definition Fields :: "string \<Rightarrow> string list" where
  "Fields s = fieldsFrom [] 0 s"

text \<open>
  \<^verbatim>\<open>strconv.Atoi\<close>: an optional sign and at least one decimal digit, nothing else;
  a value outside the 64-bit range is an error too.
\<close>

definition isDigit :: "char \<Rightarrow> bool" where
  "isDigit c = (48 \<le> (of_char c :: nat) \<and> (of_char c :: nat) \<le> 57)"

fun digitsVal :: "int \<Rightarrow> string \<Rightarrow> int" where
  "digitsVal n [] = n"
| "digitsVal n (c # cs) = digitsVal (n * 10 + (of_char c - 48)) cs"

definition Atoi :: "string \<Rightarrow> int option" where
  "Atoi s =
     (let signed = (s \<noteq> [] \<and> (hd s = CHR ''-'' \<or> hd s = CHR ''+''));
          ds = (if signed then tl s else s)
      in if ds = [] \<or> \<not> list_all isDigit ds then None
         else let n = digitsVal 0 ds;
                  v = (if signed \<and> hd s = CHR ''-'' then - n else n)
              in if v < - (2 ^ 63) \<or> 2 ^ 63 \<le> v then None else Some v)"

section \<open>The type float64\<close>

text \<open>
  A \<^verbatim>\<open>float64\<close> is an IEEE 754 binary64 value: a finite number (\<open>Fin\<close>, with
  \<open>Fin 0\<close> the positive zero), the negative zero, one of the two infinities, or a NaN
  (the program never looks at the payload of a NaN, so one NaN stands for all). The
  zero value of the type is the positive zero.
\<close>

datatype f64 = Fin real | NegZero | PInf | NInf | NaN

instantiation f64 :: zero
begin

definition zero_f64 :: f64 where
  "zero_f64 = Fin 0"

instance ..

end

text \<open>\<^verbatim>\<open>x == 0\<close> holds for both zeros.\<close>

definition isZero :: "f64 \<Rightarrow> bool" where
  "isZero x = (x = Fin 0 \<or> x = NegZero)"

definition isInf :: "f64 \<Rightarrow> bool" where
  "isInf x = (x = PInf \<or> x = NInf)"

definition signbit :: "f64 \<Rightarrow> bool" where
  "signbit x = (case x of Fin r \<Rightarrow> r < 0 | NegZero \<Rightarrow> True | PInf \<Rightarrow> False | NInf \<Rightarrow> True
                | NaN \<Rightarrow> False)"

definition val :: "f64 \<Rightarrow> real" where
  "val x = (case x of Fin r \<Rightarrow> r | NegZero \<Rightarrow> 0 | PInf \<Rightarrow> 0 | NInf \<Rightarrow> 0 | NaN \<Rightarrow> 0)"

definition zeroS :: "bool \<Rightarrow> f64" where
  "zeroS neg = (if neg then NegZero else Fin 0)"

definition infS :: "bool \<Rightarrow> f64" where
  "infS neg = (if neg then NInf else PInf)"

text \<open>
  Rounding to the nearest \<^verbatim>\<open>float64\<close>, ties to even, which is how Go rounds the
  result of every arithmetic operation. \<open>bitLen n\<close> is the number of binary digits
  of \<open>n\<close>, \<open>twoPow k\<close> is \<open>2 ^ k\<close> (by squaring, so that it evaluates fast), and
  \<open>expo a\<close> is the exponent \<open>e\<close> with \<open>2 ^ e \<le> a < 2 ^ (e + 1)\<close>. A number with
  exponent \<open>e\<close> is rounded to a multiple of \<open>2 ^ (e - 52)\<close> (53 significant bits); below
  the exponent -1022 the spacing stays \<open>2 ^ (- 1074)\<close> (subnormal numbers), so a small
  number may round to a zero, which keeps the sign; a result of \<open>2 ^ 1024\<close> or more is
  an infinity.
\<close>

function bitLen :: "int \<Rightarrow> int" where
  "bitLen n = (if n \<le> 0 then 0 else 1 + bitLen (n div 2))"
  by pat_completeness auto
termination
  by (relation "measure nat") auto

declare bitLen.simps [simp del]

function twoPow :: "int \<Rightarrow> int" where
  "twoPow k = (if k \<le> 0 then 1
     else (let h = twoPow (k div 2) in if even k then h * h else 2 * h * h))"
  by pat_completeness auto
termination
  by (relation "measure nat") auto

declare twoPow.simps [simp del]

definition pow2 :: "int \<Rightarrow> real" where
  "pow2 k = (if 0 \<le> k then of_int (twoPow k) else 1 / of_int (twoPow (- k)))"

definition expo :: "real \<Rightarrow> int" where
  "expo a =
     (if 1 \<le> a then bitLen \<lfloor>a\<rfloor> - 1
      else (let b = bitLen \<lfloor>1 / a\<rfloor> in if 1 \<le> a * pow2 (b - 1) then - (b - 1) else - b))"

definition roundHalfEven :: "real \<Rightarrow> int" where
  "roundHalfEven y =
     (let n = \<lfloor>y\<rfloor>; f = y - of_int n
      in if f < 1 / 2 then n else if 1 / 2 < f then n + 1 else if even n then n else n + 1)"

definition round64 :: "real \<Rightarrow> f64" where
  "round64 x =
     (if x = 0 then Fin 0
      else (let a = \<bar>x\<bar>; e = max (expo a) (- 1022); q = pow2 (e - 52);
                r = of_int (roundHalfEven (a / q)) * q
            in if r = 0 then zeroS (x < 0)
               else if pow2 1024 \<le> r then infS (x < 0)
               else Fin (if 0 < x then r else - r)))"

text \<open>
  \<^verbatim>\<open>a - b\<close> and \<^verbatim>\<open>a / b\<close> on \<^verbatim>\<open>float64\<close>. A division by zero is no
  error: it gives a NaN for \<open>0 / 0\<close> and an infinity otherwise.
\<close>

definition fsub :: "f64 \<Rightarrow> f64 \<Rightarrow> f64" where
  "fsub a b =
     (if a = NaN \<or> b = NaN then NaN
      else if isInf a then (if a = b then NaN else a)
      else if isInf b then (if b = PInf then NInf else PInf)
      else if isZero a \<and> isZero b then (if a = NegZero \<and> b = Fin 0 then NegZero else Fin 0)
      else round64 (val a - val b))"

definition fdiv :: "f64 \<Rightarrow> f64 \<Rightarrow> f64" where
  "fdiv a b =
     (if a = NaN \<or> b = NaN then NaN
      else if isInf a then (if isInf b then NaN else infS (signbit a \<noteq> signbit b))
      else if isInf b then zeroS (signbit a \<noteq> signbit b)
      else if isZero b then (if isZero a then NaN else infS (signbit a \<noteq> signbit b))
      else if isZero a then zeroS (signbit a \<noteq> signbit b)
      else round64 (val a / val b))"

text \<open>
  \<^verbatim>\<open>int\<close> is the 64-bit integer, and its addition wraps around. The conversion
  \<^verbatim>\<open>int(x)\<close> discards the fraction of \<open>x\<close>. When the result does not fit the
  integer type (\<open>x\<close> is too large, an infinity or a NaN), the conversion succeeds all
  the same and its value is implementation-dependent: it is given by the parameter
  \<open>conv\<close>, whose result is taken modulo \<open>2 ^ 64\<close>. Two instances: \<open>convMin\<close>
  gives the smallest integer for every such \<open>x\<close>, as the conversion instruction of
  amd64 does; \<open>convSat\<close> gives 0 for a NaN and the nearest integer of the type
  otherwise, as the conversion instruction of arm64 does.
\<close>

definition wrap64 :: "int \<Rightarrow> int" where
  "wrap64 x = (x + 2 ^ 63) mod 2 ^ 64 - 2 ^ 63"

definition toInt :: "(f64 \<Rightarrow> int) \<Rightarrow> f64 \<Rightarrow> int" where
  "toInt conv x =
     (case x of
        Fin r \<Rightarrow>
          (let t = (if 0 \<le> r then \<lfloor>r\<rfloor> else \<lceil>r\<rceil>)
           in if - (2 ^ 63) \<le> t \<and> t < 2 ^ 63 then t else wrap64 (conv x))
      | NegZero \<Rightarrow> 0
      | PInf \<Rightarrow> wrap64 (conv x)
      | NInf \<Rightarrow> wrap64 (conv x)
      | NaN \<Rightarrow> wrap64 (conv x))"

definition convMin :: "f64 \<Rightarrow> int" where
  "convMin x = - (2 ^ 63)"


section \<open>Data model\<close>

text \<open>
  Go errors, one constructor for each place that builds one. \<open>ErrSyntax\<close> is the
  \<^verbatim>\<open>strconv\<close> error for a token, \<open>ErrTime\<close> the error of \<^verbatim>\<open>time.Parse\<close>.
\<close>

datatype err =
    ErrSyntax string
  | ErrTime string
  | ErrEndLabelNotFound
  | ErrPcvData string err
  | ErrLine err
  | ErrNoaziNotFound string
  | ErrInvalidValues int nat string
  | ErrNoaziAtAzimuth string
  | ErrInvalidAz string
  | ErrEndOfFreqPosition
  | ErrEndOfFreqNotFound
  | ErrNoPhaseVariation string
  | ErrParseVal string err

text \<open>What the package writes to its logger.\<close>

datatype diag =
    WarnNoHeaderLabel string
  | WarnNoAntexData string
  | WarnNoLabel string
  | LogError err

text \<open>\<^verbatim>\<open>time.Time\<close> as its calendar fields; the zero value is 1 January of year 1.\<close>

datatype gotime = GoTime int int int int int real

definition zeroTime :: gotime where
  "zeroTime = GoTime 1 1 1 0 0 0"

record pco =
  N :: f64
  E :: f64
  U :: f64

record pcv =
  Sys :: char
  Freq :: int
  Zen1 :: f64
  Zen2 :: f64
  Dzen :: f64
  Dazi :: f64
  Nazi :: int
  Nzen :: int
  PCO :: pco
  Vnonaz :: "f64 list"
  Vaz :: "f64 list list"
  Azs :: "f64 list"

record antenna =
  Type :: string
  S1 :: string
  S2 :: string
  S3 :: string
  PCV :: "pcv list"
  isSatelliteAntenna :: bool
  ValidFrom :: gotime
  ValidUntil :: gotime
  SinexCode :: string

definition IsSatAnt :: "antenna \<Rightarrow> bool" where
  "IsSatAnt a = isSatelliteAntenna a"

text \<open>The zero values \<^verbatim>\<open>pcv{}\<close> and \<^verbatim>\<open>antenna{}\<close> (with the empty slice for PCV).\<close>

definition pcvZero :: pcv where
  "pcvZero = \<lparr>Sys = CHR 0x00, Freq = 0, Zen1 = 0, Zen2 = 0, Dzen = 0, Dazi = 0, Nazi = 0,
     Nzen = 0, PCO = \<lparr>N = 0, E = 0, U = 0\<rparr>, Vnonaz = [], Vaz = [], Azs = []\<rparr>"

definition antennaZero :: antenna where
  "antennaZero = \<lparr>Type = [], S1 = [], S2 = [], S3 = [], PCV = [], isSatelliteAntenna = False,
     ValidFrom = zeroTime, ValidUntil = zeroTime, SinexCode = []\<rparr>"

section \<open>ScanHeader\<close>

record header =
  antexVer :: string
  satSys :: char
  pcvType :: char
  refAnt :: string
  h :: string

definition headerZero :: header where
  "headerZero = \<lparr>antexVer = [], satSys = CHR 0x00, pcvType = CHR 0x00, refAnt = [], h = []\<rparr>"

text \<open>
  \<^verbatim>\<open>fmt.Sprintf("%-60sCOMMENT", buf)\<close> pads \<^verbatim>\<open>buf\<close> with blanks on the right
  to a width of 60, and the width of a string is its number of runes,
  \<^verbatim>\<open>utf8.RuneCountInString\<close>. \<open>runeWidth s\<close> is the number of bytes of the rune at
  the head of \<open>s\<close>: the length of a valid UTF-8 encoding, and 1 for a byte that starts
  none.
\<close>

definition inRange :: "char \<Rightarrow> nat \<Rightarrow> nat \<Rightarrow> bool" where
  "inRange c lo hi = (lo \<le> of_char c \<and> (of_char c :: nat) \<le> hi)"

definition runeWidth :: "string \<Rightarrow> nat" where
  "runeWidth s =
     (case s of
        [] \<Rightarrow> 0
      | c # r \<Rightarrow>
          (let size = (if inRange c 0xC2 0xDF then 2 else if inRange c 0xE0 0xEF then 3
                       else if inRange c 0xF0 0xF4 then 4 else 1);
               lo = (if c = CHR 0xE0 then 0xA0 else if c = CHR 0xF0 then 0x90 else 0x80);
               hi = (if c = CHR 0xED then 0x9F else if c = CHR 0xF4 then 0x8F else 0xBF)
           in if size = 1 \<or> length s < size then 1
              else if \<not> inRange (r ! 0) lo hi then 1
              else if size = 2 then 2
              else if \<not> inRange (r ! 1) 0x80 0xBF then 1
              else if size = 3 then 3
              else if \<not> inRange (r ! 2) 0x80 0xBF then 1
              else 4))"

text \<open>\<open>runeCountFrom k s\<close> counts the runes of \<open>s\<close> after its first \<open>k\<close> bytes.\<close>

fun runeCountFrom :: "nat \<Rightarrow> string \<Rightarrow> nat" where
  "runeCountFrom k [] = 0"
| "runeCountFrom (Suc k) (c # cs) = runeCountFrom k cs"
| "runeCountFrom 0 (c # cs) = Suc (runeCountFrom (runeWidth (c # cs) - 1) cs)"

definition RuneCountInString :: "string \<Rightarrow> nat" where
  "RuneCountInString s = runeCountFrom 0 s"

definition padComment :: "string \<Rightarrow> string" where
  "padComment buf = buf @ replicate (60 - RuneCountInString buf) (CHR '' '') @ ''COMMENT''"

fun ScanHeader_loop :: "header \<Rightarrow> string list \<Rightarrow> fault + (header \<times> diag list \<times> string list)" where
  "ScanHeader_loop hdr [] = Inr (hdr, [], [])"
| "ScanHeader_loop hdr (l # ls) =
     (let buf = (if length l < 61 then padComment l else l);
          lg = (if length l < 61 then [WarnNoHeaderLabel l] else []);
          hd1 = hdr\<lparr>h := h hdr @ buf @ [CHR 0x0A]\<rparr>;
          more = (\<lambda>hd2. bindF (ScanHeader_loop hd2 ls) (\<lambda>(hd3, lg3, rest). Inr (hd3, lg @ lg3, rest)))
      in bindF (sliceFrom buf 60) (\<lambda>lab.
           if HasPrefix lab ''ANTEX VERSION / SYST'' then
             bindF (sliceTo buf 8) (\<lambda>v.
             bindF (index buf 20) (\<lambda>c.
               more (hd1\<lparr>antexVer := TrimSpace v, satSys := c\<rparr>)))
           else if HasPrefix lab ''PCV TYPE / REFANT'' then
             bindF (index buf 0) (\<lambda>c.
             bindF (slice buf 20 40) (\<lambda>r.
               more (hd1\<lparr>pcvType := c, refAnt := TrimSpace r\<rparr>)))
           else if HasPrefix lab ''COMMENT'' then more hd1
           else if HasPrefix lab ''END OF HEADER'' then Inr (hd1, lg, ls)
           else more hd1))"

definition ScanHeader :: "string list \<Rightarrow> fault + (header \<times> diag list \<times> string list)" where
  "ScanHeader ls = ScanHeader_loop headerZero ls"

section \<open>The row parser and the frequency block parser\<close>

text \<open>
  \<^verbatim>\<open>strconv.ParseFloat(\<cdot>, 64)\<close> and \<^verbatim>\<open>time.Parse(timeForm, \<cdot>)\<close> belong to the Go
  library. They are parameters of the model, \<open>parseFloat\<close> and \<open>parseTime\<close>, with
  \<open>None\<close> for an error return, so that the theorems hold for whatever these functions
  accept. (\<^verbatim>\<open>ParseFloat\<close> accepts the numerals \<^verbatim>\<open>inf\<close> and \<^verbatim>\<open>nan\<close> too, and
  gives the negative zero for \<^verbatim>\<open>-0\<close>.) With an error \<^verbatim>\<open>ParseFloat\<close> returns a
  number as well, 0 or an infinity. The code stores it in two places, in the row that
  \<^verbatim>\<open>parseOneAzi\<close> gives up and in the azimuth of a row that \<^verbatim>\<open>parseOneFreq\<close>
  gives up; the model has 0 there. Both returns carry the error, and their callers
  drop the row and the grid.
\<close>

fun parseOneAzi_vals :: "(string \<Rightarrow> f64 option) \<Rightarrow> string list \<Rightarrow> f64 list \<Rightarrow> nat
    \<Rightarrow> f64 list \<times> err option" where
  "parseOneAzi_vals parseFloat [] v i = (v, None)"
| "parseOneAzi_vals parseFloat (t # ts) v i =
     (case parseFloat t of
        None \<Rightarrow> (v[i := 0], Some (ErrParseVal t (ErrSyntax t)))
      | Some x \<Rightarrow> parseOneAzi_vals parseFloat ts (v[i := x]) (Suc i))"

definition parseOneAzi :: "(string \<Rightarrow> f64 option) \<Rightarrow> string \<Rightarrow> string \<times> f64 list \<times> err option" where
  "parseOneAzi parseFloat s =
     (case Fields s of
        [] \<Rightarrow> ([], [], Some (ErrNoPhaseVariation s))
      | az # ts \<Rightarrow>
          (case parseOneAzi_vals parseFloat ts (replicate (length ts) 0) 0 of
             (v, Some e) \<Rightarrow> (az, v, Some e)
           | (v, None) \<Rightarrow> (az, v, None)))"

text \<open>
  The closure \<^verbatim>\<open>nextLine\<close> of \<^verbatim>\<open>parseOneFreq\<close>. It reads the variable
  \<^verbatim>\<open>buf\<close> of the enclosing function, which is an argument here.
\<close>

fun nextLine :: "string \<Rightarrow> string list \<Rightarrow> string \<times> string list" where
  "nextLine buf [] = ([], [])"
| "nextLine buf (line # ls) =
     (if \<not> HasSuffix (TrimRight buf) ''COMMENT'' then (line, ls) else nextLine buf ls)"

text \<open>
  The numbers of azimuth and zenith angles, as \<^verbatim>\<open>parseOneFreq\<close> computes them:
  \<^verbatim>\<open>int(360./dazi) + 1\<close> unless \<^verbatim>\<open>dazi == 0\<close>, and
  \<^verbatim>\<open>int((zen2-zen1)/dzen) + 1\<close>, where nothing tests \<^verbatim>\<open>dzen\<close>.
\<close>

definition parseOneFreq_nazi :: "(f64 \<Rightarrow> int) \<Rightarrow> f64 \<Rightarrow> int" where
  "parseOneFreq_nazi conv dazi =
     (if isZero dazi then 0 else wrap64 (toInt conv (fdiv (Fin 360) dazi) + 1))"

definition parseOneFreq_nzen :: "(f64 \<Rightarrow> int) \<Rightarrow> f64 \<Rightarrow> f64 \<Rightarrow> f64 \<Rightarrow> int" where
  "parseOneFreq_nzen conv zen1 zen2 dzen =
     wrap64 (toInt conv (fdiv (fsub zen2 zen1) dzen) + 1)"

text \<open>
  The loop that skips to END OF FREQUENCY after a NORTH / EAST / UP line with fewer than
  three fields. The result says whether the label was found, and holds the line read last.
\<close>

fun parseOneFreq_skip :: "string \<Rightarrow> string list \<Rightarrow> fault + (bool \<times> string \<times> string list)" where
  "parseOneFreq_skip buf [] = Inr (False, buf, [])"
| "parseOneFreq_skip buf (l # ls) =
     bindF (sliceFrom l 60) (\<lambda>lab.
       if HasPrefix lab ''END OF FREQUENCY'' then Inr (True, l, ls)
       else parseOneFreq_skip l ls)"

text \<open>The loop over the azimuth rows, \<^verbatim>\<open>for i := 0; i < nazi; i++\<close>.\<close>

function parseOneFreq_rows :: "(string \<Rightarrow> f64 option) \<Rightarrow> int \<Rightarrow> int \<Rightarrow> nat \<Rightarrow> pcv \<Rightarrow> string
    \<Rightarrow> string list \<Rightarrow> pcv \<times> err option \<times> string \<times> string list" where
  "parseOneFreq_rows parseFloat nzen nazi i p buf ls =
     (if int i < nazi then
        (case nextLine buf ls of (buf1, ls1) \<Rightarrow>
          (case parseOneAzi parseFloat buf1 of (az, vals, e) \<Rightarrow>
            (case e of
               Some x \<Rightarrow> (p, Some (ErrLine x), buf1, ls1)
             | None \<Rightarrow>
                 if az = ''NOAZI'' then (p, Some (ErrNoaziAtAzimuth buf1), buf1, ls1)
                 else if int (length vals) \<noteq> nzen
                   then (p, Some (ErrInvalidValues nzen (length vals) buf1), buf1, ls1)
                 else
                   (case parseFloat az of
                      None \<Rightarrow> (p\<lparr>Vaz := (Vaz p)[i := vals], Azs := (Azs p)[i := 0]\<rparr>,
                                Some (ErrInvalidAz az), buf1, ls1)
                    | Some a \<Rightarrow>
                        parseOneFreq_rows parseFloat nzen nazi (Suc i)
                          (p\<lparr>Vaz := (Vaz p)[i := vals], Azs := (Azs p)[i := a]\<rparr>) buf1 ls1))))
      else (p, None, buf, ls))"
  by pat_completeness auto
termination
  by (relation "measure (\<lambda>(parseFloat, nzen, nazi, i, p, buf, ls). nat (nazi - int i))") auto

declare parseOneFreq_rows.simps [simp del]

text \<open>The loop that looks for a misplaced END OF FREQUENCY.\<close>

fun parseOneFreq_resync :: "string list \<Rightarrow> fault + (err \<times> string list)" where
  "parseOneFreq_resync [] = Inr (ErrEndOfFreqNotFound, [])"
| "parseOneFreq_resync (l # ls) =
     (if length l > 60 then Inr (ErrEndOfFreqPosition, ls)
      else bindF (sliceFrom l 60) (\<lambda>lab.
        if HasPrefix lab ''END OF FREQUENCY'' then Inr (ErrEndOfFreqPosition, ls)
        else parseOneFreq_resync ls))"

text \<open>
  \<^verbatim>\<open>parseOneFreq\<close> from the computation of the numbers of angles to its end: the
  NOAZI row, the azimuth rows and the END OF FREQUENCY line. \<^verbatim>\<open>make\<close> panics on a
  negative length; a length too large for the allocator, where the program panics as
  well or runs out of memory, is not modelled.
\<close>

definition parseOneFreq_grid :: "(f64 \<Rightarrow> int) \<Rightarrow> (string \<Rightarrow> f64 option) \<Rightarrow> pcv \<Rightarrow> string
    \<Rightarrow> string list \<Rightarrow> f64 \<Rightarrow> f64 \<Rightarrow> f64 \<Rightarrow> f64 \<Rightarrow> fault + (pcv \<times> err option \<times> string list)" where
  "parseOneFreq_grid conv parseFloat p0 buf0 ls0 dazi zen1 zen2 dzen =
     (let nazi = parseOneFreq_nazi conv dazi;
          nzen = parseOneFreq_nzen conv zen1 zen2 dzen
      in if nazi < 0 then Inl MakeLen
       else
         (let p1 = p0\<lparr>Nzen := nzen, Nazi := nazi,
                      Vaz := replicate (nat nazi) [], Azs := replicate (nat nazi) 0\<rparr>
          in case nextLine buf0 ls0 of (buf1, ls1) \<Rightarrow>
            (case parseOneAzi parseFloat buf1 of (az, vals, e) \<Rightarrow>
              (case e of
                 Some x \<Rightarrow> Inr (p1, Some (ErrLine x), ls1)
               | None \<Rightarrow>
                   if az \<noteq> ''NOAZI'' then Inr (p1, Some (ErrNoaziNotFound buf1), ls1)
                   else if int (length vals) \<noteq> nzen
                     then Inr (p1, Some (ErrInvalidValues nzen (length vals) buf1), ls1)
                   else
                     (case parseOneFreq_rows parseFloat nzen nazi 0 (p1\<lparr>Vnonaz := vals\<rparr>) buf1 ls1 of
                        (p2, Some x, buf2, ls2) \<Rightarrow> Inr (p2, Some x, ls2)
                      | (p2, None, buf2, ls2) \<Rightarrow>
                          (case nextLine buf2 ls2 of (buf3, ls3) \<Rightarrow>
                             if length buf3 < 61 \<or> \<not> HasPrefix (drop 60 buf3) ''END OF FREQUENCY''
                             then bindF (parseOneFreq_resync ls3) (\<lambda>(x, ls4). Inr (p2, Some x, ls4))
                             else Inr (p2, None, ls3)))))))"

definition parseOneFreq :: "(f64 \<Rightarrow> int) \<Rightarrow> (string \<Rightarrow> f64 option) \<Rightarrow> string list \<Rightarrow> string
    \<Rightarrow> f64 \<Rightarrow> f64 \<Rightarrow> f64 \<Rightarrow> f64 \<Rightarrow> fault + (pcv \<times> err option \<times> string list)" where
  "parseOneFreq conv parseFloat ls buf dazi zen1 zen2 dzen =
     bindF (index buf 3) (\<lambda>sys.
     bindF (slice buf 4 6) (\<lambda>fr.
       case Atoi fr of
         None \<Rightarrow> Inr (pcvZero\<lparr>Sys := sys\<rparr>, Some (ErrSyntax fr), ls)
       | Some f \<Rightarrow>
           (let p = pcvZero\<lparr>Sys := sys, Freq := f\<rparr>
            in case nextLine buf ls of (buf1, ls1) \<Rightarrow>
              bindF (sliceFrom buf1 60) (\<lambda>lab.
                if HasPrefix lab ''NORTH / EAST / UP'' then
                  bindF (sliceTo buf1 60) (\<lambda>dat.
                    (let sep = Fields dat
                     in bindF (if length sep < 3 then parseOneFreq_skip buf1 ls1
                               else Inr (False, buf1, ls1)) (\<lambda>(found, buf2, ls2).
                          if found then Inr (p, None, ls2)
                          else
                            bindF (index sep 0) (\<lambda>t0.
                            bindF (index sep 1) (\<lambda>t1.
                            bindF (index sep 2) (\<lambda>t2.
                              case parseFloat t0 of
                                None \<Rightarrow> Inr (p, Some (ErrSyntax t0), ls2)
                              | Some n \<Rightarrow>
                                  (case parseFloat t1 of
                                     None \<Rightarrow> Inr (p, Some (ErrSyntax t1), ls2)
                                   | Some e \<Rightarrow>
                                       (case parseFloat t2 of
                                          None \<Rightarrow> Inr (p, Some (ErrSyntax t2), ls2)
                                        | Some u \<Rightarrow>
                                            parseOneFreq_grid conv parseFloat
                                              (p\<lparr>PCO := \<lparr>N = n, E = e, U = u\<rparr>\<rparr>)
                                              buf2 ls2 dazi zen1 zen2 dzen))))))))
                else parseOneFreq_grid conv parseFloat p buf1 ls1 dazi zen1 zen2 dzen))))"

section \<open>The per-antenna parser and the antenna block parser\<close>

definition parseDate :: "(string \<Rightarrow> gotime option) \<Rightarrow> string \<Rightarrow> gotime option" where
  "parseDate parseTime s = parseTime (TrimSpace s)"

text \<open>The loop at the end of \<^verbatim>\<open>scanOneAntenna\<close> that advances to END OF ANTENNA.\<close>

fun scanOneAntenna_resync :: "string list \<Rightarrow> string list" where
  "scanOneAntenna_resync [] = []"
| "scanOneAntenna_resync (l # ls) =
     (if length l > 60 \<and> HasPrefix (drop 60 l) ''END OF ANTENNA'' then ls
      else scanOneAntenna_resync ls)"

lemma bindF_cong [fundef_cong]:
  "m = m' \<Longrightarrow> (\<And>v. m' = Inr v \<Longrightarrow> f v = f' v) \<Longrightarrow> bindF m f = bindF m' f'"
  by (cases m') (simp_all add: bindF_def)

lemma nextLine_suffix: "nextLine buf ls = (l, rest) \<Longrightarrow> suffix rest ls"
  by (induction ls) (auto split: if_splits intro: suffix_ConsI)

lemma parseOneFreq_skip_suffix:
  "parseOneFreq_skip buf ls = Inr (found, buf', rest) \<Longrightarrow> suffix rest ls"
proof (induction ls arbitrary: buf)
  case Nil
  then show ?case by simp
next
  case (Cons l ls)
  then show ?case
    by (cases "sliceFrom l 60") (auto simp: bindF_def split: if_splits intro: suffix_ConsI)
qed

lemma parseOneFreq_resync_suffix:
  "parseOneFreq_resync ls = Inr (x, rest) \<Longrightarrow> suffix rest ls"
proof (induction ls)
  case Nil
  then show ?case by simp
next
  case (Cons l ls)
  then show ?case
    by (cases "sliceFrom l 60") (auto simp: bindF_def split: if_splits intro: suffix_ConsI)
qed

lemma parseOneFreq_rows_suffix:
  "parseOneFreq_rows parseFloat nzen nazi i p buf ls = (p', e, buf', rest)
   \<Longrightarrow> suffix rest ls"
proof (induction parseFloat nzen nazi i p buf ls rule: parseOneFreq_rows.induct)
  case (1 parseFloat nzen nazi i p buf ls)
  show ?case
  proof (cases "int i < nazi")
    case False
    with "1.prems" show ?thesis by (simp add: parseOneFreq_rows.simps)
  next
    case True
    obtain buf1 ls1 where nl: "nextLine buf ls = (buf1, ls1)" by (cases "nextLine buf ls")
    obtain az vals e0 where pa: "parseOneAzi parseFloat buf1 = (az, vals, e0)"
      by (cases "parseOneAzi parseFloat buf1")
    have le1: "suffix ls1 ls" using nl by (rule nextLine_suffix)
    show ?thesis
    proof (cases "e0 = None \<and> az \<noteq> ''NOAZI'' \<and> int (length vals) = nzen \<and> parseFloat az \<noteq> None")
      case False
      with "1.prems" True nl pa le1 show ?thesis
        by (subst (asm) parseOneFreq_rows.simps) (auto split: option.splits if_splits)
    next
      case stepc: True
      then obtain a where a: "parseFloat az = Some a" by auto
      from "1.prems" True nl pa stepc a
      have "parseOneFreq_rows parseFloat nzen nazi (Suc i)
              (p\<lparr>Vaz := (Vaz p)[i := vals], Azs := (Azs p)[i := a]\<rparr>) buf1 ls1 = (p', e, buf', rest)"
        by (subst (asm) parseOneFreq_rows.simps) simp
      with "1.IH"[OF True nl[symmetric] _ _ _ _ _ a] pa stepc
      have "suffix rest ls1" by simp
      with le1 show ?thesis by (meson suffix_order.trans)
    qed
  qed
qed

lemma parseOneFreq_grid_suffix:
  assumes "parseOneFreq_grid conv parseFloat p buf ls dazi zen1 zen2 dzen = Inr (p', e, rest)"
  shows "suffix rest ls"
proof -
  obtain buf1 ls1 where nl: "nextLine buf ls = (buf1, ls1)" by (cases "nextLine buf ls")
  have le1: "suffix ls1 ls" using nl by (rule nextLine_suffix)
  have rows: "\<And>nzen nazi q q' x b l. parseOneFreq_rows parseFloat nzen nazi 0 q buf1 ls1 = (q', x, b, l)
      \<Longrightarrow> suffix l ls"
    using parseOneFreq_rows_suffix le1 by (meson suffix_order.trans)
  have nl2: "\<And>b l b' l'. nextLine b l = (b', l') \<Longrightarrow> suffix l ls \<Longrightarrow> suffix l' ls"
    using nextLine_suffix by (meson suffix_order.trans)
  have rs: "\<And>l x l'. parseOneFreq_resync l = Inr (x, l') \<Longrightarrow> suffix l ls \<Longrightarrow> suffix l' ls"
    using parseOneFreq_resync_suffix by (meson suffix_order.trans)
  from assms nl le1 show ?thesis
    unfolding parseOneFreq_grid_def bindF_def Let_def
    by (auto split: sum.splits if_splits prod.splits option.splits dest: rows nl2 rs)
qed

lemma parseOneFreq_suffix:
  assumes "parseOneFreq conv parseFloat ls buf dazi zen1 zen2 dzen = Inr (p', e, rest)"
  shows "suffix rest ls"
proof -
  obtain buf1 ls1 where nl: "nextLine buf ls = (buf1, ls1)" by (cases "nextLine buf ls")
  have le1: "suffix ls1 ls" using nl by (rule nextLine_suffix)
  have sk: "\<And>b found b' l'. parseOneFreq_skip b ls1 = Inr (found, b', l') \<Longrightarrow> suffix l' ls"
    using parseOneFreq_skip_suffix le1 by (meson suffix_order.trans)
  have gr: "\<And>q b l q' x l'. parseOneFreq_grid conv parseFloat q b l dazi zen1 zen2 dzen = Inr (q', x, l')
      \<Longrightarrow> suffix l ls \<Longrightarrow> suffix l' ls"
    using parseOneFreq_grid_suffix by (meson suffix_order.trans)
  from assms nl le1 show ?thesis
    unfolding parseOneFreq_def bindF_def Let_def
    by (auto split: sum.splits if_splits prod.splits option.splits dest: sk gr)
qed

text \<open>
  One iteration of the loop of \<^verbatim>\<open>scanOneAntenna\<close> on the line \<open>buf\<close>, with the
  local variables of the function as arguments. \<open>Next\<close> goes on with the loop.
  \<open>Stop\<close> is a return: the success return at END OF ANTENNA, or what the function
  does once the loop is left. Without an error (a line was too short) it returns at
  once; after an error it advances to END OF ANTENNA first.
\<close>

datatype antennaStep =
    Next antenna f64 f64 f64 f64 "string list"
  | Stop antenna "err option" "diag list" "string list"

definition scanOneAntenna_body :: "(f64 \<Rightarrow> int) \<Rightarrow> (string \<Rightarrow> f64 option)
    \<Rightarrow> (string \<Rightarrow> gotime option)
    \<Rightarrow> antenna \<Rightarrow> f64 \<Rightarrow> f64 \<Rightarrow> f64 \<Rightarrow> f64 \<Rightarrow> string \<Rightarrow> string list
    \<Rightarrow> fault + antennaStep" where
  "scanOneAntenna_body conv parseFloat parseTime ant dazi zen1 zen2 dzen buf ls =
     (if length buf < 61 then Inr (Stop ant (Some ErrEndLabelNotFound) [WarnNoLabel buf] ls)
      else
        bindF (sliceFrom buf 60) (\<lambda>lab.
        bindF (sliceTo buf 60) (\<lambda>dat.
          if TrimRight lab = ''COMMENT'' then Inr (Next ant dazi zen1 zen2 dzen ls)
          else if TrimRight lab = ''TYPE / SERIAL NO'' then
            bindF (sliceTo buf 20) (\<lambda>f0.
            bindF (slice buf 20 40) (\<lambda>f1.
            bindF (slice buf 40 50) (\<lambda>f2.
            bindF (slice buf 50 60) (\<lambda>f3.
              Inr (Next (ant\<lparr>Type := TrimSpace f0, S1 := TrimSpace f1, S2 := TrimSpace f2,
                             S3 := TrimSpace f3\<rparr>) dazi zen1 zen2 dzen ls)))))
          else if TrimRight lab = ''METH / BY / # / DATE'' then
            Inr (Next ant dazi zen1 zen2 dzen ls)
          else if TrimRight lab = ''DAZI'' then
            (case parseFloat (TrimSpace dat) of
               None \<Rightarrow> Inr (Stop ant (Some (ErrSyntax (TrimSpace dat))) [] (scanOneAntenna_resync ls))
             | Some x \<Rightarrow> Inr (Next ant x zen1 zen2 dzen ls))
          else if TrimRight lab = ''ZEN1 / ZEN2 / DZEN'' then
            (let sep = Fields dat
             in if length sep < 3 then Inr (Next ant dazi zen1 zen2 dzen ls)
                else
                  bindF (index sep 0) (\<lambda>t0.
                  bindF (index sep 1) (\<lambda>t1.
                  bindF (index sep 2) (\<lambda>t2.
                    case parseFloat t0 of
                      None \<Rightarrow> Inr (Stop ant (Some (ErrSyntax t0)) [] (scanOneAntenna_resync ls))
                    | Some z1 \<Rightarrow>
                        (case parseFloat t1 of
                           None \<Rightarrow> Inr (Stop ant (Some (ErrSyntax t1)) [] (scanOneAntenna_resync ls))
                         | Some z2 \<Rightarrow>
                             (case parseFloat t2 of
                                None \<Rightarrow>
                                  Inr (Stop ant (Some (ErrSyntax t2)) [] (scanOneAntenna_resync ls))
                              | Some dz \<Rightarrow> Inr (Next ant dazi z1 z2 dz ls)))))))
          else if TrimRight lab = ''# OF FREQUENCIES'' then
            (case Atoi (TrimSpace dat) of
               None \<Rightarrow> Inr (Stop ant (Some (ErrSyntax (TrimSpace dat))) [] (scanOneAntenna_resync ls))
             | Some nf \<Rightarrow> Inr (Next ant dazi zen1 zen2 dzen ls))
          else if TrimRight lab = ''VALID FROM'' then
            (case parseDate parseTime dat of
               None \<Rightarrow> Inr (Stop (ant\<lparr>ValidFrom := zeroTime\<rparr>) (Some (ErrTime (TrimSpace dat))) []
                             (scanOneAntenna_resync ls))
             | Some t \<Rightarrow> Inr (Next (ant\<lparr>ValidFrom := t\<rparr>) dazi zen1 zen2 dzen ls))
          else if TrimRight lab = ''VALID UNTIL'' then
            (case parseDate parseTime dat of
               None \<Rightarrow> Inr (Stop (ant\<lparr>ValidUntil := zeroTime\<rparr>) (Some (ErrTime (TrimSpace dat))) []
                             (scanOneAntenna_resync ls))
             | Some t \<Rightarrow> Inr (Next (ant\<lparr>ValidUntil := t\<rparr>) dazi zen1 zen2 dzen ls))
          else if TrimRight lab = ''SINEX CODE'' then
            Inr (Next (ant\<lparr>SinexCode := TrimSpace dat\<rparr>) dazi zen1 zen2 dzen ls)
          else if TrimRight lab = ''START OF FREQUENCY'' then
            bindF (parseOneFreq conv parseFloat ls buf dazi zen1 zen2 dzen) (\<lambda>r.
              case r of
                (p, Some e1, rest) \<Rightarrow>
                  Inr (Stop ant (Some (ErrPcvData (Type ant) e1)) [] (scanOneAntenna_resync rest))
              | (p, None, rest) \<Rightarrow>
                  Inr (Next (ant\<lparr>PCV := PCV ant @
                               [p\<lparr>Dazi := dazi, Zen1 := zen1, Zen2 := zen2, Dzen := dzen\<rparr>]\<rparr>)
                         dazi zen1 zen2 dzen rest))
          else if TrimRight lab = ''END OF ANTENNA'' then Inr (Stop ant None [] ls)
          else Inr (Next ant dazi zen1 zen2 dzen ls))))"

lemma scanOneAntenna_resync_suffix: "suffix (scanOneAntenna_resync ls) ls"
  by (induction ls) (auto intro: suffix_ConsI)

lemma scanOneAntenna_body_Next_suffix:
  assumes "scanOneAntenna_body conv parseFloat parseTime ant dazi zen1 zen2 dzen buf ls
           = Inr (Next ant' dazi' zen1' zen2' dzen' rest)"
  shows "suffix rest ls"
  using assms unfolding scanOneAntenna_body_def bindF_def Let_def
  by (auto split: if_splits sum.splits option.splits prod.splits dest: parseOneFreq_suffix)

text \<open>
  The loop itself. When the input ends inside the loop no error is pending, and the
  function returns the error that the end label was not found.
\<close>

function scanOneAntenna_loop :: "(f64 \<Rightarrow> int) \<Rightarrow> (string \<Rightarrow> f64 option)
    \<Rightarrow> (string \<Rightarrow> gotime option)
    \<Rightarrow> antenna \<Rightarrow> f64 \<Rightarrow> f64 \<Rightarrow> f64 \<Rightarrow> f64 \<Rightarrow> string list
    \<Rightarrow> fault + (antenna \<times> err option \<times> diag list \<times> string list)" where
  "scanOneAntenna_loop conv parseFloat parseTime ant dazi zen1 zen2 dzen [] =
     Inr (ant, Some ErrEndLabelNotFound, [], [])"
| "scanOneAntenna_loop conv parseFloat parseTime ant dazi zen1 zen2 dzen (buf # ls) =
     bindF (scanOneAntenna_body conv parseFloat parseTime ant dazi zen1 zen2 dzen buf ls) (\<lambda>r.
       case r of
         Next ant' dazi' zen1' zen2' dzen' rest \<Rightarrow>
           scanOneAntenna_loop conv parseFloat parseTime ant' dazi' zen1' zen2' dzen' rest
       | Stop ant' e lg rest \<Rightarrow> Inr (ant', e, lg, rest))"
  by pat_completeness auto
termination
  by (relation "measure (\<lambda>(conv, parseFloat, parseTime, ant, dazi, zen1, zen2, dzen, ls). length ls)")
     (auto dest!: scanOneAntenna_body_Next_suffix suffix_length_le simp: less_Suc_eq_le)

definition scanOneAntenna :: "(f64 \<Rightarrow> int) \<Rightarrow> (string \<Rightarrow> f64 option)
    \<Rightarrow> (string \<Rightarrow> gotime option) \<Rightarrow> string list
    \<Rightarrow> fault + (antenna \<times> err option \<times> diag list \<times> string list)" where
  "scanOneAntenna conv parseFloat parseTime ls =
     scanOneAntenna_loop conv parseFloat parseTime antennaZero 0 0 0 0 ls"

lemma scanOneAntenna_body_Stop_suffix:
  assumes "scanOneAntenna_body conv parseFloat parseTime ant dazi zen1 zen2 dzen buf ls
           = Inr (Stop ant' e lg rest)"
  shows "suffix rest ls"
proof -
  have pf: "\<And>d z1 z2 dz p x l. parseOneFreq conv parseFloat ls buf d z1 z2 dz = Inr (p, x, l)
      \<Longrightarrow> suffix (scanOneAntenna_resync l) ls"
    using parseOneFreq_suffix scanOneAntenna_resync_suffix by (meson suffix_order.trans)
  from assms show ?thesis
    unfolding scanOneAntenna_body_def bindF_def Let_def
    by (auto split: if_splits sum.splits option.splits prod.splits
             simp: scanOneAntenna_resync_suffix dest: pf)
qed

lemma scanOneAntenna_loop_suffix:
  "scanOneAntenna_loop conv parseFloat parseTime ant dazi zen1 zen2 dzen ls = Inr (a, e, lg, rest)
   \<Longrightarrow> suffix rest ls"
proof (induction conv parseFloat parseTime ant dazi zen1 zen2 dzen ls
    rule: scanOneAntenna_loop.induct)
  case (1 conv parseFloat parseTime ant dazi zen1 zen2 dzen)
  then show ?case by simp
next
  case (2 conv parseFloat parseTime ant dazi zen1 zen2 dzen buf ls)
  show ?case
  proof (cases "scanOneAntenna_body conv parseFloat parseTime ant dazi zen1 zen2 dzen buf ls")
    case (Inl f)
    with "2.prems" show ?thesis by (simp add: bindF_def)
  next
    case (Inr r)
    show ?thesis
    proof (cases r)
      case (Next ant' dazi' zen1' zen2' dzen' rest')
      with "2.prems" Inr
      have "scanOneAntenna_loop conv parseFloat parseTime ant' dazi' zen1' zen2' dzen' rest'
            = Inr (a, e, lg, rest)"
        by (simp add: bindF_def)
      then have "suffix rest rest'"
        using "2.IH" Inr Next by simp
      moreover have "suffix rest' ls"
        using Inr Next scanOneAntenna_body_Next_suffix by simp
      ultimately show ?thesis by (meson suffix_order.trans suffix_ConsI)
    next
      case (Stop ant' e' lg' rest')
      with "2.prems" Inr have "rest = rest'" by (simp add: bindF_def)
      moreover have "suffix rest' ls"
        using Inr Stop scanOneAntenna_body_Stop_suffix by simp
      ultimately show ?thesis by (simp add: suffix_ConsI)
    qed
  qed
qed

text \<open>
  \<^verbatim>\<open>ReadAntexData\<close>. The antenna that \<^verbatim>\<open>scanOneAntenna\<close> returns is appended
  whether or not an error came with it.
\<close>

function ReadAntexData :: "(f64 \<Rightarrow> int) \<Rightarrow> (string \<Rightarrow> f64 option)
    \<Rightarrow> (string \<Rightarrow> gotime option) \<Rightarrow> string list
    \<Rightarrow> fault + (antenna list \<times> diag list)" where
  "ReadAntexData conv parseFloat parseTime [] = Inr ([], [])"
| "ReadAntexData conv parseFloat parseTime (buf # ls) =
     (let lg = (if length buf < 61 then [WarnNoAntexData buf] else [])
      in bindF (sliceFrom buf 60) (\<lambda>lab.
           if HasPrefix lab ''START OF ANTENNA'' then
             bindF (scanOneAntenna conv parseFloat parseTime ls) (\<lambda>(a, e, lg1, rest).
             bindF (ReadAntexData conv parseFloat parseTime rest) (\<lambda>(ants, lg2).
               Inr (a # ants,
                    lg @ lg1 @ (case e of None \<Rightarrow> [] | Some x \<Rightarrow> [LogError x]) @ lg2)))
           else
             bindF (ReadAntexData conv parseFloat parseTime ls) (\<lambda>(ants, lg2).
               Inr (ants, lg @ lg2))))"
  by pat_completeness auto
termination
  by (relation "measure (\<lambda>(conv, parseFloat, parseTime, ls). length ls)")
     (auto dest!: scanOneAntenna_loop_suffix suffix_length_le simp: less_Suc_eq_le scanOneAntenna_def)

declare ReadAntexData.simps(2) [simp del]

section \<open>Library instances and example lines\<close>

text \<open>
  A line with its data in columns 0 to 59 and its label from column 60 on.
\<close>

definition line60 :: "string \<Rightarrow> string \<Rightarrow> string" where
  "line60 dat lab = dat @ replicate (60 - length dat) (CHR '' '') @ lab"

text \<open>
  Instances of the library parameters, for running the parser on concrete lines.
  \<open>decimalReal\<close> reads a plain decimal numeral (an optional sign, digits, an optional
  fraction) as its sign and its exact magnitude, and rejects everything else.
  \<open>decimalFloat\<close> is \<^verbatim>\<open>ParseFloat\<close> on these numerals: the \<^verbatim>\<open>float64\<close> nearest
  to the numeral, and an error when that is an infinity. \<open>sixFieldTime\<close> reads the six
  fields of the ANTEX date layout; the concrete theorems below only use it on lines that
  are plainly dates or plainly not.
\<close>

definition decimalReal :: "string \<Rightarrow> (bool \<times> real) option" where
  "decimalReal s =
     (let signed = (s \<noteq> [] \<and> (hd s = CHR ''-'' \<or> hd s = CHR ''+''));
          t = (if signed then tl s else s);
          ip = takeWhile isDigit t;
          r = dropWhile isDigit t;
          fp = (if r \<noteq> [] \<and> hd r = CHR ''.'' then tl r else r)
      in if (ip = [] \<and> fp = []) \<or> \<not> list_all isDigit fp then None
         else Some (signed \<and> hd s = CHR ''-'',
                    real_of_int (digitsVal 0 ip) + real_of_int (digitsVal 0 fp) / 10 ^ length fp))"

definition decimalFloat :: "string \<Rightarrow> f64 option" where
  "decimalFloat s =
     (case decimalReal s of
        None \<Rightarrow> None
      | Some (neg, m) \<Rightarrow>
          if m = 0 then Some (zeroS neg)
          else (let x = round64 (if neg then - m else m)
                in if isInf x then None else Some x))"

definition sixFieldTime :: "string \<Rightarrow> gotime option" where
  "sixFieldTime s =
     (case Fields s of
        [y, mo, d, hh, mi, ss] \<Rightarrow>
          (case (Atoi y, Atoi mo, Atoi d, Atoi hh, Atoi mi, decimalReal ss) of
             (Some a, Some b, Some c, Some e, Some f, Some (neg, g)) \<Rightarrow>
               if length y = 4 \<and> 0 \<le> a \<and> 1 \<le> b \<and> b \<le> 12 \<and> 1 \<le> c \<and> c \<le> 31
                  \<and> 0 \<le> e \<and> e < 24 \<and> 0 \<le> f \<and> f < 60 \<and> (\<not> neg \<or> g = 0) \<and> g < 60
               then Some (GoTime a b c e f g) else None
           | _ \<Rightarrow> None)
      | _ \<Rightarrow> None)"

definition freqStart :: string where
  "freqStart = line60 ''   G01'' ''START OF FREQUENCY''"

definition freqEnd :: string where
  "freqEnd = line60 ''   G01'' ''END OF FREQUENCY''"

definition neuLine :: string where
  "neuLine = line60 ''    279.00      0.00   2319.50'' ''NORTH / EAST / UP''"

definition commentLine :: string where
  "commentLine = line60 ''a remark'' ''COMMENT''"

definition gridBlock :: "string list" where
  "gridBlock =
     [neuLine,
      ''   NOAZI   -0.50    0.25    1.00'',
      ''     0.0   -0.50    0.25    1.00'',
      ''   180.0   -0.25    0.50    1.25'',
      ''   360.0   -0.50    0.25    1.00'',
      freqEnd]"

definition gridPcv :: pcv where
  "gridPcv = \<lparr>Sys = CHR ''G'', Freq = 1, Zen1 = 0, Zen2 = 0, Dzen = 0, Dazi = 0, Nazi = 3,
     Nzen = 3, PCO = \<lparr>N = Fin 279, E = 0, U = Fin 2319.5\<rparr>,
     Vnonaz = [Fin (- 0.5), Fin 0.25, Fin 1],
     Vaz = [[Fin (- 0.5), Fin 0.25, Fin 1], [Fin (- 0.25), Fin 0.5, Fin 1.25],
            [Fin (- 0.5), Fin 0.25, Fin 1]],
     Azs = [0, Fin 180, Fin 360]\<rparr>"

section \<open>Properties of the frequency block parser\<close>

lemma wrap64_id: "- (2 ^ 63) \<le> x \<Longrightarrow> x < 2 ^ 63 \<Longrightarrow> wrap64 x = x"
  by (simp add: wrap64_def)

lemma parseOneFreq_rows_fields:
  "parseOneFreq_rows parseFloat nzen nazi i p buf ls = (p', e, buf', rest)
   \<Longrightarrow> Nzen p' = Nzen p \<and> Nazi p' = Nazi p \<and> Vnonaz p' = Vnonaz p
       \<and> length (Vaz p') = length (Vaz p)"
proof (induction parseFloat nzen nazi i p buf ls rule: parseOneFreq_rows.induct)
  case (1 parseFloat nzen nazi i p buf ls)
  show ?case
  proof (cases "int i < nazi")
    case False
    with "1.prems" show ?thesis by (simp add: parseOneFreq_rows.simps)
  next
    case True
    obtain buf1 ls1 where nl: "nextLine buf ls = (buf1, ls1)" by (cases "nextLine buf ls")
    obtain az vals e0 where pa: "parseOneAzi parseFloat buf1 = (az, vals, e0)"
      by (cases "parseOneAzi parseFloat buf1")
    show ?thesis
    proof (cases "e0 = None \<and> az \<noteq> ''NOAZI'' \<and> int (length vals) = nzen \<and> parseFloat az \<noteq> None")
      case False
      with "1.prems" True nl pa show ?thesis
        by (subst (asm) parseOneFreq_rows.simps) (auto split: option.splits if_splits)
    next
      case stepc: True
      then obtain a where a: "parseFloat az = Some a" by auto
      from "1.prems" True nl pa stepc a
      have "parseOneFreq_rows parseFloat nzen nazi (Suc i)
              (p\<lparr>Vaz := (Vaz p)[i := vals], Azs := (Azs p)[i := a]\<rparr>) buf1 ls1 = (p', e, buf', rest)"
        by (subst (asm) parseOneFreq_rows.simps) simp
      with "1.IH"[OF True nl[symmetric] _ _ _ _ _ a] pa stepc
      show ?thesis by simp
    qed
  qed
qed

lemma parseOneFreq_grid_counts:
  assumes "parseOneFreq_grid conv parseFloat p buf ls dazi zen1 zen2 dzen = Inr (p', e, rest)"
  shows "Nzen p' = parseOneFreq_nzen conv zen1 zen2 dzen \<and> Nazi p' = parseOneFreq_nazi conv dazi"
  using assms unfolding parseOneFreq_grid_def bindF_def Let_def
  by (auto split: sum.splits if_splits prod.splits option.splits dest: parseOneFreq_rows_fields)

text \<open>
  A grid that \<^verbatim>\<open>parseOneFreq\<close> returns carries the two numbers of angles, unless the
  function returned before it computed them. Then the grid holds the system and the
  frequency number at most, and the return is one of three: the frequency number or one
  of the three offsets was not a number (a \<^verbatim>\<open>strconv\<close> error), or the
  NORTH / EAST / UP line had fewer than three fields and the function returned without
  an error.
\<close>

lemma parseOneFreq_counts:
  assumes "parseOneFreq conv parseFloat ls buf dazi zen1 zen2 dzen = Inr (p, e, rest)"
  shows "(Nzen p = parseOneFreq_nzen conv zen1 zen2 dzen \<and> Nazi p = parseOneFreq_nazi conv dazi)
       \<or> (p = pcvZero\<lparr>Sys := Sys p, Freq := Freq p\<rparr>
          \<and> ((\<exists>t. e = Some (ErrSyntax t))
             \<or> (e = None \<and> HasPrefix (drop 60 (fst (nextLine buf ls))) ''NORTH / EAST / UP''
                 \<and> length (Fields (take 60 (fst (nextLine buf ls)))) < 3)))"
  using assms unfolding parseOneFreq_def bindF_def Let_def sliceFrom_def sliceTo_def
  by (auto split: sum.splits if_splits prod.splits option.splits simp: pcvZero_def
           dest: parseOneFreq_grid_counts)

lemma parseOneFreq_rows_inv:
  "parseOneFreq_rows parseFloat nzen nazi i p buf ls = (p', None, buf', rest)
   \<Longrightarrow> length (Vaz p) = nat nazi \<Longrightarrow> int i \<le> nazi
   \<Longrightarrow> (\<forall>j<i. int (length (Vaz p ! j)) = nzen)
   \<Longrightarrow> (\<forall>j<nat nazi. int (length (Vaz p' ! j)) = nzen)"
proof (induction parseFloat nzen nazi i p buf ls rule: parseOneFreq_rows.induct)
  case (1 parseFloat nzen nazi i p buf ls)
  show ?case
  proof (cases "int i < nazi")
    case False
    with "1.prems" have "p' = p" "nat nazi = i" by (simp_all add: parseOneFreq_rows.simps)
    with "1.prems"(4) show ?thesis by simp
  next
    case True
    obtain buf1 ls1 where nl: "nextLine buf ls = (buf1, ls1)" by (cases "nextLine buf ls")
    obtain az vals e0 where pa: "parseOneAzi parseFloat buf1 = (az, vals, e0)"
      by (cases "parseOneAzi parseFloat buf1")
    show ?thesis
    proof (cases "e0 = None \<and> az \<noteq> ''NOAZI'' \<and> int (length vals) = nzen \<and> parseFloat az \<noteq> None")
      case False
      with "1.prems"(1) True nl pa show ?thesis
        by (subst (asm) parseOneFreq_rows.simps) (auto split: option.splits if_splits)
    next
      case stepc: True
      then obtain a where a: "parseFloat az = Some a" by auto
      let ?p1 = "p\<lparr>Vaz := (Vaz p)[i := vals], Azs := (Azs p)[i := a]\<rparr>"
      from "1.prems"(1) True nl pa stepc a
      have run: "parseOneFreq_rows parseFloat nzen nazi (Suc i) ?p1 buf1 ls1 = (p', None, buf', rest)"
        by (subst (asm) parseOneFreq_rows.simps) simp
      have len: "length (Vaz ?p1) = nat nazi" using "1.prems"(2) by simp
      have le: "int (Suc i) \<le> nazi" using True by simp
      have ilt: "i < length (Vaz p)" using "1.prems"(2) True by simp
      have inv: "\<forall>j<Suc i. int (length (Vaz ?p1 ! j)) = nzen"
      proof (intro allI impI)
        fix j assume "j < Suc i"
        then show "int (length (Vaz ?p1 ! j)) = nzen"
          using "1.prems"(4) stepc ilt by (cases "j = i") (simp_all add: nth_list_update)
      qed
      from "1.IH"[OF True nl[symmetric] _ _ _ _ _ a run len le inv] pa stepc
      show ?thesis by simp
    qed
  qed
qed

lemma parseOneFreq_rows_lengths:
  assumes "parseOneFreq_rows parseFloat nzen nazi 0 p1 buf ls = (p2, None, b, r)"
    and "length (Vaz p1) = nat nazi" and "0 \<le> nazi" and "Nzen p1 = nzen" and "Nazi p1 = nazi"
    and "int (length (Vnonaz p1)) = nzen"
  shows "int (length (Vnonaz p2)) = Nzen p2 \<and> int (length (Vaz p2)) = Nazi p2
         \<and> (\<forall>row\<in>set (Vaz p2). int (length row) = Nzen p2)"
proof -
  have f: "Nzen p2 = nzen" "Nazi p2 = nazi" "Vnonaz p2 = Vnonaz p1" "length (Vaz p2) = nat nazi"
    using parseOneFreq_rows_fields[OF assms(1)] assms(2,4,5) by simp_all
  have inv: "\<forall>j<nat nazi. int (length (Vaz p2 ! j)) = nzen"
    using parseOneFreq_rows_inv[OF assms(1) assms(2)] assms(3) by simp
  have "\<forall>row\<in>set (Vaz p2). int (length row) = nzen"
    using inv f(4) by (auto simp: in_set_conv_nth)
  with f assms(3,6) show ?thesis by simp
qed

lemma parseOneFreq_grid_lengths:
  assumes "parseOneFreq_grid conv parseFloat p0 buf ls dazi zen1 zen2 dzen = Inr (p, None, rest)"
  shows "int (length (Vnonaz p)) = Nzen p \<and> int (length (Vaz p)) = Nazi p
         \<and> (\<forall>row\<in>set (Vaz p). int (length row) = Nzen p)"
  using assms unfolding parseOneFreq_grid_def bindF_def Let_def
  by (auto split: sum.splits if_splits prod.splits option.splits
           dest!: parseOneFreq_rows_lengths)

lemma gridBlock_parse:
  "parseOneFreq convMin decimalFloat gridBlock freqStart (Fin 180) 0 (Fin 10) (Fin 5) = Inr (gridPcv, None, [])"
  by code_simp

text \<open>
  Claim C3. When the frequency block parser returns a grid without an error, the
  non-azimuth values are as many as the zenith count of the grid, the azimuth rows are as
  many as its azimuth count, and every azimuth row has as many values as the zenith count.
\<close>

theorem C3_grid_lengths:
  assumes "parseOneFreq conv parseFloat ls buf dazi zen1 zen2 dzen = Inr (p, None, rest)"
  shows "int (length (Vnonaz p)) = Nzen p \<and> int (length (Vaz p)) = Nazi p
         \<and> (\<forall>row\<in>set (Vaz p). int (length row) = Nzen p)"
  using assms unfolding parseOneFreq_def bindF_def Let_def
  by (auto split: sum.splits if_splits prod.splits option.splits simp: pcvZero_def
           dest!: parseOneFreq_grid_lengths)

text \<open>
  Claim C3, witness: a block with three azimuth rows (DAZI 180) and three zenith angles
  (ZEN1 0, ZEN2 10, DZEN 5) parses without an error and has these lengths.
\<close>

theorem C3_grid_lengths_witness:
  "parseOneFreq convMin decimalFloat gridBlock freqStart (Fin 180) 0 (Fin 10) (Fin 5) = Inr (gridPcv, None, [])
   \<and> int (length (Vnonaz gridPcv)) = 3 \<and> Nzen gridPcv = 3
   \<and> int (length (Vaz gridPcv)) = 3 \<and> Nazi gridPcv = 3
   \<and> map length (Vaz gridPcv) = [3, 3, 3]"
  using gridBlock_parse C3_grid_lengths[OF gridBlock_parse] by (simp add: gridPcv_def)

definition antennaStart :: string where
  "antennaStart = line60 [] ''START OF ANTENNA''"

definition antennaEnd :: string where
  "antennaEnd = line60 [] ''END OF ANTENNA''"

definition shortNeuLine :: string where
  "shortNeuLine = line60 ''    279.00      0.00'' ''NORTH / EAST / UP''"

definition zenLine :: string where
  "zenLine = line60 ''     0.0  17.0   1.0'' ''ZEN1 / ZEN2 / DZEN''"

text \<open>
  \<^verbatim>\<open>nextLine\<close> tests the line held in \<^verbatim>\<open>buf\<close>, which is the line read before,
  and never the line it has just read.
\<close>

lemma nextLine_cases:
  "nextLine buf ls =
     (if HasSuffix (TrimRight buf) ''COMMENT'' then ([], [])
      else (case ls of [] \<Rightarrow> ([], []) | l # r \<Rightarrow> (l, r)))"
  by (induction ls) auto

text \<open>
  Claim C4 says that inside a frequency block every COMMENT line is skipped and the first
  line that is not a comment is taken as the record. The code does otherwise: a COMMENT
  line after START OF FREQUENCY is returned as the record, the next read then discards
  every remaining line of the input, and the frequency block fails with no line left for
  the antennas that follow.
\<close>

theorem C4_comment_line_not_skipped:
  "nextLine freqStart (commentLine # gridBlock) = (commentLine, gridBlock)
   \<and> nextLine commentLine (gridBlock @ [antennaEnd, antennaStart]) = ([], [])
   \<and> parseOneFreq convMin decimalFloat (commentLine # gridBlock @ [antennaEnd, antennaStart])
        freqStart (Fin 180) 0 (Fin 10) (Fin 5)
      = Inr (pcvZero\<lparr>Sys := CHR ''G'', Freq := 1, Nazi := 3, Nzen := 3,
                     Vaz := [[], [], []], Azs := [0, 0, 0]\<rparr>,
             Some (ErrLine (ErrNoPhaseVariation [])), [])"
proof -
  have a: "nextLine freqStart (commentLine # gridBlock) = (commentLine, gridBlock)"
    by code_simp
  have b: "nextLine commentLine (gridBlock @ [antennaEnd, antennaStart]) = ([], [])"
    by code_simp
  have c: "parseOneFreq convMin decimalFloat (commentLine # gridBlock @ [antennaEnd, antennaStart])
        freqStart (Fin 180) 0 (Fin 10) (Fin 5)
      = Inr (pcvZero\<lparr>Sys := CHR ''G'', Freq := 1, Nazi := 3, Nzen := 3,
                     Vaz := [[], [], []], Azs := [0, 0, 0]\<rparr>,
             Some (ErrLine (ErrNoPhaseVariation [])), [])"
    by code_simp
  from a b c show ?thesis by simp
qed

text \<open>
  Claim C8 says that a NORTH / EAST / UP line with fewer than three fields makes the
  frequency block parse fail with an error. The code does otherwise: it advances to
  END OF FREQUENCY and returns the grid read so far without an error, and the antenna
  parser appends that grid, which has no values, to the antenna.
\<close>

theorem C8_short_pco_line_returns_success:
  "parseOneFreq convMin decimalFloat [shortNeuLine, freqEnd] freqStart 0 0 (Fin 17) (Fin 1)
     = Inr (pcvZero\<lparr>Sys := CHR ''G'', Freq := 1\<rparr>, None, [])
   \<and> scanOneAntenna convMin decimalFloat sixFieldTime
        [zenLine, freqStart, shortNeuLine, freqEnd, antennaEnd]
     = Inr (antennaZero\<lparr>PCV := [pcvZero\<lparr>Sys := CHR ''G'', Freq := 1, Zen2 := Fin 17, Dzen := Fin 1\<rparr>]\<rparr>,
            None, [], [])"
proof -
  have a: "parseOneFreq convMin decimalFloat [shortNeuLine, freqEnd] freqStart 0 0 (Fin 17) (Fin 1)
     = Inr (pcvZero\<lparr>Sys := CHR ''G'', Freq := 1\<rparr>, None, [])"
    by code_simp
  have b: "scanOneAntenna convMin decimalFloat sixFieldTime
        [zenLine, freqStart, shortNeuLine, freqEnd, antennaEnd]
     = Inr (antennaZero\<lparr>PCV := [pcvZero\<lparr>Sys := CHR ''G'', Freq := 1, Zen2 := Fin 17, Dzen := Fin 1\<rparr>]\<rparr>,
            None, [], [])"
    by code_simp
  from a b show ?thesis by simp
qed

section \<open>The numbers of zenith and azimuth angles\<close>

lemma two_pow_63: "(2::int) ^ 63 = 9223372036854775808"
  by simp

text \<open>
  The conversion of a finite \<^verbatim>\<open>float64\<close> within the range of the integers is the
  floor of a number that is not negative and the ceiling of a negative one.
\<close>

lemma toInt_floor:
  assumes "0 \<le> q" "q < 2 ^ 63"
  shows "toInt conv (Fin q) = \<lfloor>q\<rfloor>"
proof -
  have "\<lfloor>q\<rfloor> < 2 ^ 63" using assms(2) by (simp add: floor_less_iff)
  moreover have "0 \<le> \<lfloor>q\<rfloor>" using assms(1) by simp
  ultimately show ?thesis using assms(1) by (simp add: toInt_def)
qed

lemma toInt_ceiling:
  assumes "q < 0" "- (2 ^ 63) \<le> q"
  shows "toInt conv (Fin q) = \<lceil>q\<rceil>"
proof -
  have "\<lceil>q\<rceil> \<le> 0" using assms(1) by (simp add: ceiling_le_iff)
  moreover have "- (2 ^ 63) \<le> \<lceil>q\<rceil>" using assms(2) by (simp add: le_ceiling_iff)
  ultimately show ?thesis using assms(1) by (simp add: toInt_def)
qed

lemma count_floor:
  assumes "0 \<le> q" "q < 2 ^ 63 - 1"
  shows "wrap64 (toInt conv (Fin q) + 1) = \<lfloor>q\<rfloor> + 1"
proof -
  have "q < 2 ^ 63" using assms(2) by simp
  then have f: "toInt conv (Fin q) = \<lfloor>q\<rfloor>" using assms(1) by (simp add: toInt_floor)
  have "\<lfloor>q\<rfloor> < 2 ^ 63 - 1" using assms(2) by (simp add: floor_less_iff)
  moreover have "0 \<le> \<lfloor>q\<rfloor>" using assms(1) by simp
  ultimately have "wrap64 (\<lfloor>q\<rfloor> + 1) = \<lfloor>q\<rfloor> + 1" by (intro wrap64_id) simp_all
  with f show ?thesis by simp
qed

lemma count_ceiling:
  assumes "q < 0" "- (2 ^ 63) \<le> q"
  shows "wrap64 (toInt conv (Fin q) + 1) = \<lceil>q\<rceil> + 1"
proof -
  have f: "toInt conv (Fin q) = \<lceil>q\<rceil>" using assms by (rule toInt_ceiling)
  have c1: "\<lceil>q\<rceil> \<le> 0" using assms(1) by (simp add: ceiling_le_iff)
  have c2: "- (2 ^ 63) \<le> \<lceil>q\<rceil>" using assms(2) by (simp add: le_ceiling_iff)
  have "wrap64 (\<lceil>q\<rceil> + 1) = \<lceil>q\<rceil> + 1"
  proof (rule wrap64_id)
    show "- (2 ^ 63) \<le> \<lceil>q\<rceil> + 1" using c2 by linarith
    show "\<lceil>q\<rceil> + 1 < 2 ^ 63" unfolding two_pow_63 using c1 by linarith
  qed
  with f show ?thesis by simp
qed

lemma count_zero: "wrap64 (toInt conv (zeroS neg) + 1) = 1"
  by (simp add: zeroS_def toInt_def wrap64_def)

text \<open>
  The difference and the quotient of finite numbers are the real difference and the real
  quotient, rounded.
\<close>

lemma fsub_exact:
  assumes "round64 (b - a) = Fin (b - a)"
  shows "fsub (Fin b) (Fin a) = Fin (b - a)"
  using assms by (auto simp: fsub_def isInf_def isZero_def val_def)

lemma fdiv_finite:
  assumes "c \<noteq> 0" "d \<noteq> 0"
  shows "fdiv (Fin c) (Fin d) = round64 (c / d)"
  using assms by (simp add: fdiv_def isInf_def isZero_def val_def)

lemma fdiv_zero_num:
  assumes "d \<noteq> 0"
  shows "fdiv (Fin 0) (Fin d) = zeroS (d < 0)"
  using assms by (simp add: fdiv_def isInf_def isZero_def signbit_def)

lemma parseOneFreq_nzen_exact:
  assumes "d \<noteq> 0" "round64 (b - a) = Fin (b - a)" "round64 ((b - a) / d) = Fin ((b - a) / d)"
    and "0 \<le> (b - a) / d" "(b - a) / d < 2 ^ 63 - 1"
  shows "parseOneFreq_nzen conv (Fin a) (Fin b) (Fin d) = \<lfloor>(b - a) / d\<rfloor> + 1"
proof (cases "b - a = 0")
  case True
  then show ?thesis
    using assms(1,2) by (simp add: parseOneFreq_nzen_def fsub_exact fdiv_zero_num count_zero)
next
  case False
  then have "fdiv (fsub (Fin b) (Fin a)) (Fin d) = Fin ((b - a) / d)"
    using assms(1,2,3) by (simp add: fsub_exact fdiv_finite)
  then show ?thesis
    using assms(4,5) by (simp add: parseOneFreq_nzen_def count_floor)
qed

lemma parseOneFreq_nazi_exact:
  assumes "d \<noteq> 0" "round64 (360 / d) = Fin (360 / d)" "0 \<le> 360 / d" "360 / d < 2 ^ 63 - 1"
  shows "parseOneFreq_nazi conv (Fin d) = \<lfloor>360 / d\<rfloor> + 1"
proof -
  have "fdiv (Fin 360) (Fin d) = Fin (360 / d)"
    using assms(1,2) by (simp add: fdiv_finite)
  moreover have "\<not> isZero (Fin d)" using assms(1) by (simp add: isZero_def)
  ultimately show ?thesis
    using assms(3,4) by (simp add: parseOneFreq_nazi_def count_floor)
qed

text \<open>
  Claim C5, amended. The two counts of a grid that the frequency block parser returns are
  the numbers computed from the grid parameters, unless the parser returned before it
  computed them (a frequency number or an offset that is no number, or a
  NORTH / EAST / UP line with fewer than three fields); then the grid holds the system
  and the frequency number only, and both counts are 0. The zenith count is computed in
  \<^verbatim>\<open>float64\<close> arithmetic: the difference ZEN2 - ZEN1 is rounded to the nearest
  \<^verbatim>\<open>float64\<close>, so is its quotient by DZEN, and the fraction of that quotient is
  discarded. For a rounded quotient \<open>q\<close> within the range of the 64-bit integers the
  count is the floor of \<open>q\<close> plus one when \<open>q\<close> is not negative, and the ceiling of
  \<open>q\<close> plus one when it is negative. It is the number
  floor((ZEN2 - ZEN1) / DZEN) + 1 of the real quotient whenever neither operation
  rounds and the quotient is not negative. The azimuth count is 0 when DAZI is zero;
  otherwise it is computed in the same way from the rounded quotient of 360 by DAZI.
\<close>

theorem C5_amended:
  "(parseOneFreq conv parseFloat ls buf dazi zen1 zen2 dzen = Inr (p, e, rest)
      \<longrightarrow> (Nzen p = parseOneFreq_nzen conv zen1 zen2 dzen
             \<and> Nazi p = parseOneFreq_nazi conv dazi)
          \<or> (p = pcvZero\<lparr>Sys := Sys p, Freq := Freq p\<rparr>
             \<and> ((\<exists>t. e = Some (ErrSyntax t))
                \<or> (e = None
                    \<and> HasPrefix (drop 60 (fst (nextLine buf ls))) ''NORTH / EAST / UP''
                    \<and> length (Fields (take 60 (fst (nextLine buf ls)))) < 3))))
   \<and> (fdiv (fsub zen2 zen1) dzen = Fin q \<and> 0 \<le> q \<and> q < 2 ^ 63 - 1
      \<longrightarrow> parseOneFreq_nzen conv zen1 zen2 dzen = \<lfloor>q\<rfloor> + 1)
   \<and> (fdiv (fsub zen2 zen1) dzen = Fin q \<and> q < 0 \<and> - (2 ^ 63) \<le> q
      \<longrightarrow> parseOneFreq_nzen conv zen1 zen2 dzen = \<lceil>q\<rceil> + 1)
   \<and> (d \<noteq> 0 \<and> round64 (b - a) = Fin (b - a) \<and> round64 ((b - a) / d) = Fin ((b - a) / d)
        \<and> 0 \<le> (b - a) / d \<and> (b - a) / d < 2 ^ 63 - 1
      \<longrightarrow> parseOneFreq_nzen conv (Fin a) (Fin b) (Fin d) = \<lfloor>(b - a) / d\<rfloor> + 1)
   \<and> (isZero dazi \<longrightarrow> parseOneFreq_nazi conv dazi = 0)
   \<and> (\<not> isZero dazi \<and> fdiv (Fin 360) dazi = Fin r \<and> 0 \<le> r \<and> r < 2 ^ 63 - 1
      \<longrightarrow> parseOneFreq_nazi conv dazi = \<lfloor>r\<rfloor> + 1)
   \<and> (\<not> isZero dazi \<and> fdiv (Fin 360) dazi = Fin r \<and> r < 0 \<and> - (2 ^ 63) \<le> r
      \<longrightarrow> parseOneFreq_nazi conv dazi = \<lceil>r\<rceil> + 1)
   \<and> (g \<noteq> 0 \<and> round64 (360 / g) = Fin (360 / g) \<and> 0 \<le> 360 / g \<and> 360 / g < 2 ^ 63 - 1
      \<longrightarrow> parseOneFreq_nazi conv (Fin g) = \<lfloor>360 / g\<rfloor> + 1)"
proof (intro conjI impI)
  assume "parseOneFreq conv parseFloat ls buf dazi zen1 zen2 dzen = Inr (p, e, rest)"
  then show "(Nzen p = parseOneFreq_nzen conv zen1 zen2 dzen
             \<and> Nazi p = parseOneFreq_nazi conv dazi)
          \<or> (p = pcvZero\<lparr>Sys := Sys p, Freq := Freq p\<rparr>
             \<and> ((\<exists>t. e = Some (ErrSyntax t))
                \<or> (e = None
                    \<and> HasPrefix (drop 60 (fst (nextLine buf ls))) ''NORTH / EAST / UP''
                    \<and> length (Fields (take 60 (fst (nextLine buf ls)))) < 3)))"
    by (rule parseOneFreq_counts)
next
  assume "fdiv (fsub zen2 zen1) dzen = Fin q \<and> 0 \<le> q \<and> q < 2 ^ 63 - 1"
  then show "parseOneFreq_nzen conv zen1 zen2 dzen = \<lfloor>q\<rfloor> + 1"
    by (simp add: parseOneFreq_nzen_def count_floor)
next
  assume "fdiv (fsub zen2 zen1) dzen = Fin q \<and> q < 0 \<and> - (2 ^ 63) \<le> q"
  then show "parseOneFreq_nzen conv zen1 zen2 dzen = \<lceil>q\<rceil> + 1"
    by (simp add: parseOneFreq_nzen_def count_ceiling)
next
  assume "d \<noteq> 0 \<and> round64 (b - a) = Fin (b - a) \<and> round64 ((b - a) / d) = Fin ((b - a) / d)
        \<and> 0 \<le> (b - a) / d \<and> (b - a) / d < 2 ^ 63 - 1"
  then show "parseOneFreq_nzen conv (Fin a) (Fin b) (Fin d) = \<lfloor>(b - a) / d\<rfloor> + 1"
    using parseOneFreq_nzen_exact by blast
next
  assume "isZero dazi"
  then show "parseOneFreq_nazi conv dazi = 0" by (simp add: parseOneFreq_nazi_def)
next
  assume "\<not> isZero dazi \<and> fdiv (Fin 360) dazi = Fin r \<and> 0 \<le> r \<and> r < 2 ^ 63 - 1"
  then show "parseOneFreq_nazi conv dazi = \<lfloor>r\<rfloor> + 1"
    by (simp add: parseOneFreq_nazi_def count_floor)
next
  assume "\<not> isZero dazi \<and> fdiv (Fin 360) dazi = Fin r \<and> r < 0 \<and> - (2 ^ 63) \<le> r"
  then show "parseOneFreq_nazi conv dazi = \<lceil>r\<rceil> + 1"
    by (simp add: parseOneFreq_nazi_def count_ceiling)
next
  assume "g \<noteq> 0 \<and> round64 (360 / g) = Fin (360 / g) \<and> 0 \<le> 360 / g \<and> 360 / g < 2 ^ 63 - 1"
  then show "parseOneFreq_nazi conv (Fin g) = \<lfloor>360 / g\<rfloor> + 1"
    using parseOneFreq_nazi_exact by blast
qed

text \<open>
  Claim C5, witness: DAZI 180, ZEN1 0, ZEN2 10 and DZEN 5 give three azimuth rows and
  three zenith angles (both quotients are exact), and the parsed grid carries them;
  ZEN1 1, ZEN2 0, DZEN 2 and DAZI -720 give one of each (both quotients are -0.5); a
  DAZI that is the negative zero gives no azimuth row.
\<close>

theorem C5_amended_witness:
  "parseOneFreq convMin decimalFloat gridBlock freqStart (Fin 180) 0 (Fin 10) (Fin 5)
     = Inr (gridPcv, None, [])
   \<and> Nzen gridPcv = 3 \<and> Nazi gridPcv = 3
   \<and> parseOneFreq_nzen convMin 0 (Fin 10) (Fin 5) = 3
   \<and> parseOneFreq_nzen convMin (Fin 0) (Fin 10) (Fin 5) = \<lfloor>(10 - 0) / (5 :: real)\<rfloor> + 1
   \<and> parseOneFreq_nazi convMin (Fin 180) = 3
   \<and> parseOneFreq_nazi convMin (Fin 180) = \<lfloor>360 / (180 :: real)\<rfloor> + 1
   \<and> parseOneFreq_nzen convMin (Fin 1) 0 (Fin 2) = 1
   \<and> parseOneFreq_nazi convMin (Fin (- 720)) = 1
   \<and> parseOneFreq_nazi convMin NegZero = 0"
proof -
  have q1: "fdiv (fsub (Fin 10) 0) (Fin 5) = Fin 2" by code_simp
  have q2: "fdiv (Fin 360) (Fin 180) = Fin 2" by code_simp
  have q3: "fdiv (fsub 0 (Fin 1)) (Fin 2) = Fin (- (1 / 2))" by code_simp
  have q4: "fdiv (Fin 360) (Fin (- 720)) = Fin (- (1 / 2))" by code_simp
  have z: "\<not> isZero (Fin 180)" "\<not> isZero (Fin (- 720))" "isZero NegZero"
    by (simp_all add: isZero_def)
  have r1: "round64 (10 - 0) = Fin (10 - 0)" "round64 ((10 - 0) / 5) = Fin ((10 - 0) / 5)"
    "round64 (360 / 180) = Fin (360 / 180)" by code_simp+
  have c: "\<lceil>- (1 / 2 :: real)\<rceil> = 0" by (simp add: ceiling_eq_iff)
  note t1 = C5_amended[where conv = convMin and parseFloat = decimalFloat and ls = gridBlock
      and buf = freqStart and dazi = "Fin 180" and ?zen1.0 = 0 and ?zen2.0 = "Fin 10"
      and dzen = "Fin 5" and p = gridPcv and e = None and rest = "[]" and q = 2 and r = 2
      and a = 0 and b = 10 and d = 5 and g = 180]
  note t2 = C5_amended[where conv = convMin and dazi = "Fin (- 720)" and ?zen1.0 = "Fin 1"
      and ?zen2.0 = 0 and dzen = "Fin 2" and q = "- (1 / 2)" and r = "- (1 / 2)"]
  note t3 = C5_amended[where conv = convMin and dazi = NegZero]
  have g: "gridPcv \<noteq> pcvZero\<lparr>Sys := Sys gridPcv, Freq := Freq gridPcv\<rparr>"
    by (simp add: gridPcv_def pcvZero_def)
  have n: "Nzen gridPcv = parseOneFreq_nzen convMin 0 (Fin 10) (Fin 5)
           \<and> Nazi gridPcv = parseOneFreq_nazi convMin (Fin 180)"
    using t1 gridBlock_parse g by blast
  have a1: "parseOneFreq_nzen convMin 0 (Fin 10) (Fin 5) = 3"
    using t1 q1 by simp
  have a2: "parseOneFreq_nazi convMin (Fin 180) = 3"
    using t1 q2 z by simp
  have a3: "parseOneFreq_nzen convMin (Fin 0) (Fin 10) (Fin 5) = \<lfloor>(10 - 0) / (5 :: real)\<rfloor> + 1"
    using t1 r1 by simp
  have a4: "parseOneFreq_nazi convMin (Fin 180) = \<lfloor>360 / (180 :: real)\<rfloor> + 1"
    using t1 r1 by simp
  have a5: "parseOneFreq_nzen convMin (Fin 1) 0 (Fin 2) = 1"
    using t2 q3 c by simp
  have a6: "parseOneFreq_nazi convMin (Fin (- 720)) = 1"
    using t2 q4 z c by simp
  have a7: "parseOneFreq_nazi convMin NegZero = 0"
    using t3 z by simp
  from gridBlock_parse n a1 a2 a3 a4 a5 a6 a7 show ?thesis by simp
qed

definition noaziRow3 :: string where
  "noaziRow3 = ''   NOAZI   -0.50    0.25    1.00''"

definition tenthStepBlock :: "string list" where
  "tenthStepBlock =
     [line60 ''     0.0  90.0   0.1'' ''ZEN1 / ZEN2 / DZEN'',
      freqStart, neuLine, noaziRow3, freqEnd, antennaEnd]"

definition threeTenthsBlock :: "string list" where
  "threeTenthsBlock =
     [line60 ''     0.0   0.3   0.1'' ''ZEN1 / ZEN2 / DZEN'',
      freqStart, neuLine, noaziRow3, freqEnd, antennaEnd]"

definition negativeStepBlock :: "string list" where
  "negativeStepBlock =
     [line60 ''  -720.0'' ''DAZI'',
      line60 ''     1.0   0.0   2.0'' ''ZEN1 / ZEN2 / DZEN'',
      freqStart, neuLine, ''   NOAZI    1.00'', ''     0.0    1.00'', freqEnd, antennaEnd]"

text \<open>
  Claim C5, counterexample. The count of the code is not floor((ZEN2 - ZEN1) / DZEN) + 1.

  With ZEN1 0.0, ZEN2 90.0 and DZEN 0.1 the parser expects 901 values in a row (it
  rejects a row of three with that number in its error). The \<^verbatim>\<open>float64\<close> nearest to
  0.1 is a little more than 0.1, so the real quotient of the parameters is a little less
  than 900 and the formula gives 899 + 1; the division of the code rounds the quotient to
  900, and the count of the code is 900 + 1.

  With ZEN1 0.0, ZEN2 0.3 and DZEN 0.1 the parser accepts a grid of three zenith angles,
  where the formula on the numerals of the file gives 4: the code divides the
  \<^verbatim>\<open>float64\<close> values nearest to 0.3 and 0.1, whose quotient is less than 3.

  With DAZI -720 and ZEN1 1, ZEN2 0, DZEN 2 both quotients are -0.5 exactly. The
  conversion to an integer discards the fraction, so that the parser computes one zenith
  angle and one azimuth row and accepts a frequency block of that shape, where the floor
  gives 0 for both counts.
\<close>

theorem C5_counterexample:
  "scanOneAntenna convMin decimalFloat sixFieldTime tenthStepBlock
     = Inr (antennaZero, Some (ErrPcvData [] (ErrInvalidValues 901 3 noaziRow3)), [], [])
   \<and> decimalFloat ''90.0'' = Some (Fin 90)
   \<and> decimalFloat ''0.1'' = Some (Fin (3602879701896397 / 36028797018963968))
   \<and> \<lfloor>((90 :: real) - 0) / (3602879701896397 / 36028797018963968)\<rfloor> + 1 = (900 :: int)
   \<and> scanOneAntenna convMin decimalFloat sixFieldTime threeTenthsBlock
     = Inr (antennaZero\<lparr>PCV :=
              [\<lparr>Sys = CHR ''G'', Freq = 1, Zen1 = 0,
                Zen2 = Fin (5404319552844595 / 18014398509481984),
                Dzen = Fin (3602879701896397 / 36028797018963968), Dazi = 0, Nazi = 0,
                Nzen = 3, PCO = \<lparr>N = Fin 279, E = 0, U = Fin 2319.5\<rparr>,
                Vnonaz = [Fin (- 0.5), Fin 0.25, Fin 1], Vaz = [], Azs = []\<rparr>]\<rparr>,
            None, [], [])
   \<and> \<lfloor>((3 / 10 :: real) - 0) / (1 / 10)\<rfloor> + 1 = (4 :: int)
   \<and> scanOneAntenna convMin decimalFloat sixFieldTime negativeStepBlock
     = Inr (antennaZero\<lparr>PCV :=
              [\<lparr>Sys = CHR ''G'', Freq = 1, Zen1 = Fin 1, Zen2 = 0, Dzen = Fin 2,
                Dazi = Fin (- 720), Nazi = 1, Nzen = 1,
                PCO = \<lparr>N = Fin 279, E = 0, U = Fin 2319.5\<rparr>, Vnonaz = [Fin 1],
                Vaz = [[Fin 1]], Azs = [0]\<rparr>]\<rparr>,
            None, [], [])
   \<and> \<lfloor>((0 :: real) - 1) / 2\<rfloor> + 1 = (0 :: int) \<and> \<lfloor>(360 :: real) / (- 720)\<rfloor> + 1 = (0 :: int)"
proof -
  have a: "scanOneAntenna convMin decimalFloat sixFieldTime tenthStepBlock
     = Inr (antennaZero, Some (ErrPcvData [] (ErrInvalidValues 901 3 noaziRow3)), [], [])"
    by code_simp
  have b: "decimalFloat ''90.0'' = Some (Fin 90)"
    "decimalFloat ''0.1'' = Some (Fin (3602879701896397 / 36028797018963968))"
    by code_simp+
  have c: "\<lfloor>((90 :: real) - 0) / (3602879701896397 / 36028797018963968)\<rfloor> + 1 = (900 :: int)"
    by (simp add: floor_eq_iff)
  have d: "scanOneAntenna convMin decimalFloat sixFieldTime threeTenthsBlock
     = Inr (antennaZero\<lparr>PCV :=
              [\<lparr>Sys = CHR ''G'', Freq = 1, Zen1 = 0,
                Zen2 = Fin (5404319552844595 / 18014398509481984),
                Dzen = Fin (3602879701896397 / 36028797018963968), Dazi = 0, Nazi = 0,
                Nzen = 3, PCO = \<lparr>N = Fin 279, E = 0, U = Fin 2319.5\<rparr>,
                Vnonaz = [Fin (- 0.5), Fin 0.25, Fin 1], Vaz = [], Azs = []\<rparr>]\<rparr>,
            None, [], [])"
    by code_simp
  have e: "\<lfloor>((3 / 10 :: real) - 0) / (1 / 10)\<rfloor> + 1 = (4 :: int)" by simp
  have f: "scanOneAntenna convMin decimalFloat sixFieldTime negativeStepBlock
     = Inr (antennaZero\<lparr>PCV :=
              [\<lparr>Sys = CHR ''G'', Freq = 1, Zen1 = Fin 1, Zen2 = 0, Dzen = Fin 2,
                Dazi = Fin (- 720), Nazi = 1, Nzen = 1,
                PCO = \<lparr>N = Fin 279, E = 0, U = Fin 2319.5\<rparr>, Vnonaz = [Fin 1],
                Vaz = [[Fin 1]], Azs = [0]\<rparr>]\<rparr>,
            None, [], [])"
    by code_simp
  have g: "\<lfloor>((0 :: real) - 1) / 2\<rfloor> + 1 = (0 :: int)" by (simp add: floor_eq_iff)
  have h: "\<lfloor>(360 :: real) / (- 720)\<rfloor> + 1 = (0 :: int)" by (simp add: floor_eq_iff)
  from a b c d e f g h show ?thesis by blast
qed

section \<open>The header parser\<close>

text \<open>
  The header fields as the specification describes them, for comparison with
  \<open>ScanHeader\<close>: a line shorter than 61 columns counts as a comment; a line with the
  version / system label gives the version (columns 0 to 7, trimmed) and the satellite
  system (column 20); a line with the PCV type / reference antenna label gives the PCV
  type (column 0) and the reference antenna (columns 20 to 39, trimmed); every other line
  changes nothing.
\<close>

definition spec_headerLine :: "string \<times> char \<times> char \<times> string \<Rightarrow> string
    \<Rightarrow> string \<times> char \<times> char \<times> string" where
  "spec_headerLine f l =
     (case f of (ver, sys, typ, ref) \<Rightarrow>
        if length l < 61 then f
        else if HasPrefix (drop 60 l) ''ANTEX VERSION / SYST''
          then (TrimSpace (take 8 l), l ! 20, typ, ref)
        else if HasPrefix (drop 60 l) ''PCV TYPE / REFANT''
          then (ver, sys, l ! 0, TrimSpace (take 20 (drop 20 l)))
        else f)"

definition spec_headerFields :: "string list \<Rightarrow> string \<times> char \<times> char \<times> string" where
  "spec_headerFields ls = foldl spec_headerLine ([], CHR 0x00, CHR 0x00, []) ls"

definition headerFields :: "header \<Rightarrow> string \<times> char \<times> char \<times> string" where
  "headerFields hdr = (antexVer hdr, satSys hdr, pcvType hdr, refAnt hdr)"

lemma runeCountFrom_le: "runeCountFrom k s \<le> length s"
  by (induction k s rule: runeCountFrom.induct) auto

text \<open>
  A line shorter than 61 bytes is padded to at least 60 bytes, and what follows column 60
  is the word COMMENT after as many blanks as the line has bytes more than runes.
\<close>

lemma padComment_label:
  assumes "length l < 61"
  shows "sliceFrom (padComment l) 60
         = Inr (replicate (length l - RuneCountInString l) (CHR '' '') @ ''COMMENT'')"
proof -
  have le: "RuneCountInString l \<le> length l"
    by (simp add: RuneCountInString_def runeCountFrom_le)
  have "60 - length l \<le> 60 - RuneCountInString l" using le by simp
  moreover have "60 - RuneCountInString l - (60 - length l) = length l - RuneCountInString l"
    using le assms by simp
  ultimately show ?thesis
    using assms by (simp add: sliceFrom_def padComment_def)
qed

lemma padded_label_other:
  "\<not> HasPrefix (replicate k (CHR '' '') @ ''COMMENT'') ''ANTEX VERSION / SYST''"
  "\<not> HasPrefix (replicate k (CHR '' '') @ ''COMMENT'') ''PCV TYPE / REFANT''"
  "\<not> HasPrefix (replicate k (CHR '' '') @ ''COMMENT'') ''END OF HEADER''"
  by (cases k; simp add: HasPrefix_def)+

lemma ScanHeader_loop_short:
  assumes "length l < 61"
  shows "ScanHeader_loop hdr (l # ls) =
     bindF (ScanHeader_loop (hdr\<lparr>h := h hdr @ padComment l @ [CHR 0x0A]\<rparr>) ls)
       (\<lambda>(hd3, lg3, rest). Inr (hd3, WarnNoHeaderLabel l # lg3, rest))"
  using assms
  by (cases "ScanHeader_loop (hdr\<lparr>h := h hdr @ padComment l @ [CHR 0x0A]\<rparr>) ls")
     (auto simp: padComment_label padded_label_other bindF_def Let_def)

lemma ScanHeader_loop_no_end:
  assumes "\<forall>l\<in>set ls. \<not> HasPrefix (drop 60 l) ''END OF HEADER''"
  shows "\<exists>hdr'. ScanHeader_loop hdr ls
           = Inr (hdr', map WarnNoHeaderLabel (filter (\<lambda>l. length l < 61) ls), [])
         \<and> headerFields hdr' = foldl spec_headerLine (headerFields hdr) ls"
  using assms
proof (induction ls arbitrary: hdr)
  case Nil
  then show ?case by simp
next
  case (Cons l ls)
  then have noend: "\<not> HasPrefix (drop 60 l) ''END OF HEADER''"
    and rest: "\<forall>l\<in>set ls. \<not> HasPrefix (drop 60 l) ''END OF HEADER''" by simp_all
  show ?case
  proof (cases "length l < 61")
    case True
    let ?h1 = "hdr\<lparr>h := h hdr @ padComment l @ [CHR 0x0A]\<rparr>"
    from Cons.IH[OF rest, of ?h1] obtain hdr' where
      run: "ScanHeader_loop ?h1 ls = Inr (hdr', map WarnNoHeaderLabel (filter (\<lambda>l. length l < 61) ls), [])"
      and f: "headerFields hdr' = foldl spec_headerLine (headerFields ?h1) ls" by blast
    have "headerFields ?h1 = spec_headerLine (headerFields hdr) l"
      using True by (simp add: headerFields_def spec_headerLine_def)
    with run f True show ?thesis
      by (simp add: ScanHeader_loop_short bindF_def del: ScanHeader_loop.simps)
  next
    case False
    then have sl: "sliceFrom l 60 = Inr (drop 60 l)" "sliceTo l 8 = Inr (take 8 l)"
      "index l 20 = Inr (l ! 20)" "index l 0 = Inr (l ! 0)"
      "slice l 20 40 = Inr (take 20 (drop 20 l))"
      by (auto simp: sliceFrom_def sliceTo_def index_def slice_def)
    let ?h1 = "hdr\<lparr>h := h hdr @ l @ [CHR 0x0A]\<rparr>"
    let ?h2 = "if HasPrefix (drop 60 l) ''ANTEX VERSION / SYST''
               then ?h1\<lparr>antexVer := TrimSpace (take 8 l), satSys := l ! 20\<rparr>
               else if HasPrefix (drop 60 l) ''PCV TYPE / REFANT''
               then ?h1\<lparr>pcvType := l ! 0, refAnt := TrimSpace (take 20 (drop 20 l))\<rparr>
               else ?h1"
    have step: "ScanHeader_loop hdr (l # ls) = ScanHeader_loop ?h2 ls"
      using False noend sl
      by (cases "ScanHeader_loop ?h2 ls") (auto simp: bindF_def Let_def split: prod.splits)
    from Cons.IH[OF rest, of ?h2] obtain hdr' where
      run: "ScanHeader_loop ?h2 ls = Inr (hdr', map WarnNoHeaderLabel (filter (\<lambda>l. length l < 61) ls), [])"
      and f: "headerFields hdr' = foldl spec_headerLine (headerFields ?h2) ls" by blast
    have "headerFields ?h2 = spec_headerLine (headerFields hdr) l"
      using False by (simp add: headerFields_def spec_headerLine_def)
    with run f False step show ?thesis by simp
  qed
qed

text \<open>
  Claim C6. On an input in which no line carries the END OF HEADER label, the header
  parse does not fail: it reads every line, ends with the input exhausted, and returns
  the version, satellite system, PCV type and reference antenna collected from the lines
  it has seen (with one warning for each line that was too short).
\<close>

theorem C6_header_without_terminator:
  assumes "\<forall>l\<in>set ls. \<not> HasPrefix (drop 60 l) ''END OF HEADER''"
  shows "\<exists>hdr. ScanHeader ls = Inr (hdr, map WarnNoHeaderLabel (filter (\<lambda>l. length l < 61) ls), [])
           \<and> headerFields hdr = spec_headerFields ls"
  using ScanHeader_loop_no_end[OF assms, of headerZero]
  by (simp add: ScanHeader_def spec_headerFields_def headerFields_def headerZero_def)

definition versionLine :: string where
  "versionLine = line60 ''     1.4            M'' ''ANTEX VERSION / SYST''"

definition pcvTypeLine :: string where
  "pcvTypeLine = line60 ''A                   IGS14_REF'' ''PCV TYPE / REFANT''"

text \<open>
  Claim C6, witness: a version line, a line without a label and a PCV type line, with no
  END OF HEADER, give all four fields and one warning.
\<close>

theorem C6_header_without_terminator_witness:
  "\<exists>hdr. ScanHeader [versionLine, ''no label'', pcvTypeLine]
          = Inr (hdr, [WarnNoHeaderLabel ''no label''], [])
        \<and> headerFields hdr = (''1.4'', CHR ''M'', CHR ''A'', ''IGS14_REF'')"
proof -
  have a: "\<forall>l\<in>set [versionLine, ''no label'', pcvTypeLine]. \<not> HasPrefix (drop 60 l) ''END OF HEADER''"
    by code_simp
  have b: "spec_headerFields [versionLine, ''no label'', pcvTypeLine]
           = (''1.4'', CHR ''M'', CHR ''A'', ''IGS14_REF'')"
    by code_simp
  have c: "filter (\<lambda>l. length l < 61) [versionLine, ''no label'', pcvTypeLine] = [''no label'']"
    by code_simp
  from C6_header_without_terminator[OF a] b c show ?thesis by simp
qed

definition satTypeLine :: string where
  "satTypeLine =
     line60 ''BLOCK IIA           G01                 G032      1992-079A'' ''TYPE / SERIAL NO''"

definition recTypeLine :: string where
  "recTypeLine = line60 ''AOAD/M_T        NONE1234'' ''TYPE / SERIAL NO''"

definition badDaziLine :: string where
  "badDaziLine = line60 ''     abc'' ''DAZI''"

definition badValidFromLine :: string where
  "badValidFromLine = line60 ''  1992    11'' ''VALID FROM''"

definition sinexLine :: string where
  "sinexLine = line60 ''IGS14_2247'' ''SINEX CODE''"

section \<open>Properties of the per-antenna parser\<close>

lemma scanOneAntenna_body_short:
  "length buf < 61 \<Longrightarrow>
   scanOneAntenna_body conv parseFloat parseTime ant dazi zen1 zen2 dzen buf ls
   = Inr (Stop ant (Some ErrEndLabelNotFound) [WarnNoLabel buf] ls)"
  by (simp add: scanOneAntenna_body_def)

lemma scanOneAntenna_body_ValidFrom_error:
  assumes "\<not> length buf < 61" and "TrimRight (drop 60 buf) = ''VALID FROM''"
    and "parseDate parseTime (take 60 buf) = None"
  shows "scanOneAntenna_body conv parseFloat parseTime ant dazi zen1 zen2 dzen buf ls
   = Inr (Stop (ant\<lparr>ValidFrom := zeroTime\<rparr>) (Some (ErrTime (TrimSpace (take 60 buf)))) []
            (scanOneAntenna_resync ls))"
  using assms by (simp add: scanOneAntenna_body_def sliceFrom_def sliceTo_def bindF_def)

lemma scanOneAntenna_body_ValidUntil_error:
  assumes "\<not> length buf < 61" and "TrimRight (drop 60 buf) = ''VALID UNTIL''"
    and "parseDate parseTime (take 60 buf) = None"
  shows "scanOneAntenna_body conv parseFloat parseTime ant dazi zen1 zen2 dzen buf ls
   = Inr (Stop (ant\<lparr>ValidUntil := zeroTime\<rparr>) (Some (ErrTime (TrimSpace (take 60 buf)))) []
            (scanOneAntenna_resync ls))"
  using assms by (simp add: scanOneAntenna_body_def sliceFrom_def sliceTo_def bindF_def)

lemma scanOneAntenna_body_flag:
  assumes "scanOneAntenna_body conv parseFloat parseTime ant dazi zen1 zen2 dzen buf ls = Inr r"
  shows "(case r of Next ant' d z1 z2 dz rest \<Rightarrow> isSatelliteAntenna ant' = isSatelliteAntenna ant
          | Stop ant' e lg rest \<Rightarrow> isSatelliteAntenna ant' = isSatelliteAntenna ant)"
  using assms unfolding scanOneAntenna_body_def bindF_def Let_def
  by (auto split: if_splits sum.splits option.splits prod.splits)

lemma scanOneAntenna_loop_flag:
  "scanOneAntenna_loop conv parseFloat parseTime ant dazi zen1 zen2 dzen ls = Inr (a, e, lg, rest)
   \<Longrightarrow> isSatelliteAntenna a = isSatelliteAntenna ant"
proof (induction conv parseFloat parseTime ant dazi zen1 zen2 dzen ls
    rule: scanOneAntenna_loop.induct)
  case (1 conv parseFloat parseTime ant dazi zen1 zen2 dzen)
  then show ?case by simp
next
  case (2 conv parseFloat parseTime ant dazi zen1 zen2 dzen buf ls)
  show ?case
  proof (cases "scanOneAntenna_body conv parseFloat parseTime ant dazi zen1 zen2 dzen buf ls")
    case (Inl f)
    with "2.prems" show ?thesis by (simp add: bindF_def)
  next
    case (Inr r)
    note fl = scanOneAntenna_body_flag[OF Inr]
    show ?thesis
    proof (cases r)
      case (Next ant' dazi' zen1' zen2' dzen' rest')
      with "2.prems" Inr
      have "scanOneAntenna_loop conv parseFloat parseTime ant' dazi' zen1' zen2' dzen' rest'
            = Inr (a, e, lg, rest)"
        by (simp add: bindF_def)
      then have "isSatelliteAntenna a = isSatelliteAntenna ant'"
        using "2.IH" Inr Next by simp
      with fl Next show ?thesis by simp
    next
      case (Stop ant' e' lg' rest')
      with "2.prems" Inr have "a = ant'" by (simp add: bindF_def)
      with fl Stop show ?thesis by simp
    qed
  qed
qed

lemma scanOneAntenna_body_Type:
  assumes "\<not> length buf < 61" and "TrimRight (drop 60 buf) = ''TYPE / SERIAL NO''"
  shows "scanOneAntenna_body conv parseFloat parseTime ant dazi zen1 zen2 dzen buf ls
   = Inr (Next (ant\<lparr>Type := TrimSpace (take 20 buf), S1 := TrimSpace (take 20 (drop 20 buf)),
                      S2 := TrimSpace (take 10 (drop 40 buf)),
                      S3 := TrimSpace (take 10 (drop 50 buf))\<rparr>) dazi zen1 zen2 dzen ls)"
  using assms
  by (simp add: scanOneAntenna_body_def sliceFrom_def sliceTo_def slice_def bindF_def)

text \<open>
  Claim C9, amended. The satellite-antenna flag of every antenna record that the
  per-antenna parser returns is false, whichever identifier fields are populated: a
  TYPE / SERIAL NO line fills the type and the three identifiers from columns 0 to 19,
  20 to 39, 40 to 49 and 50 to 59 and changes nothing else, and the flag is never set.
\<close>

theorem C9_amended:
  "(scanOneAntenna conv parseFloat parseTime ls = Inr (a, e, lg, rest) \<longrightarrow> \<not> IsSatAnt a)
   \<and> (\<not> length buf < 61 \<and> TrimRight (drop 60 buf) = ''TYPE / SERIAL NO''
      \<longrightarrow> scanOneAntenna_body conv parseFloat parseTime ant dazi zen1 zen2 dzen buf ls'
          = Inr (Next (ant\<lparr>Type := TrimSpace (take 20 buf), S1 := TrimSpace (take 20 (drop 20 buf)),
                             S2 := TrimSpace (take 10 (drop 40 buf)),
                             S3 := TrimSpace (take 10 (drop 50 buf))\<rparr>) dazi zen1 zen2 dzen ls'))"
proof (intro conjI impI)
  assume "scanOneAntenna conv parseFloat parseTime ls = Inr (a, e, lg, rest)"
  then show "\<not> IsSatAnt a"
    using scanOneAntenna_loop_flag[of conv parseFloat parseTime antennaZero 0 0 0 0 ls a e lg rest]
    by (simp add: scanOneAntenna_def IsSatAnt_def antennaZero_def)
next
  assume "\<not> length buf < 61 \<and> TrimRight (drop 60 buf) = ''TYPE / SERIAL NO''"
  then show "scanOneAntenna_body conv parseFloat parseTime ant dazi zen1 zen2 dzen buf ls'
          = Inr (Next (ant\<lparr>Type := TrimSpace (take 20 buf), S1 := TrimSpace (take 20 (drop 20 buf)),
                             S2 := TrimSpace (take 10 (drop 40 buf)),
                             S3 := TrimSpace (take 10 (drop 50 buf))\<rparr>) dazi zen1 zen2 dzen ls')"
    using scanOneAntenna_body_Type by blast
qed

lemma satBlock_scan:
  "scanOneAntenna convMin decimalFloat sixFieldTime [satTypeLine, antennaEnd]
   = Inr (antennaZero\<lparr>Type := ''BLOCK IIA'', S1 := ''G01'', S2 := ''G032'', S3 := ''1992-079A''\<rparr>,
          None, [], [])"
  by code_simp

text \<open>
  Claim C9, witness: the satellite antenna of the ANTEX example (BLOCK IIA, G01, G032,
  1992-079A) gets its identifiers from the TYPE / SERIAL NO line and is returned with the
  flag false.
\<close>

theorem C9_amended_witness:
  "scanOneAntenna convMin decimalFloat sixFieldTime [satTypeLine, antennaEnd]
   = Inr (antennaZero\<lparr>Type := ''BLOCK IIA'', S1 := ''G01'', S2 := ''G032'', S3 := ''1992-079A''\<rparr>,
          None, [], [])
   \<and> \<not> IsSatAnt (antennaZero\<lparr>Type := ''BLOCK IIA'', S1 := ''G01'', S2 := ''G032'',
                               S3 := ''1992-079A''\<rparr>)
   \<and> scanOneAntenna_body convMin decimalFloat sixFieldTime antennaZero 0 0 0 0 satTypeLine [antennaEnd]
   = Inr (Next (antennaZero\<lparr>Type := ''BLOCK IIA'', S1 := ''G01'', S2 := ''G032'',
                             S3 := ''1992-079A''\<rparr>) 0 0 0 0 [antennaEnd])"
proof -
  have a: "\<not> length satTypeLine < 61" by code_simp
  have b: "TrimRight (drop 60 satTypeLine) = ''TYPE / SERIAL NO''" by code_simp
  have c: "TrimSpace (take 20 satTypeLine) = ''BLOCK IIA''"
    "TrimSpace (take 20 (drop 20 satTypeLine)) = ''G01''"
    "TrimSpace (take 10 (drop 40 satTypeLine)) = ''G032''"
    "TrimSpace (take 10 (drop 50 satTypeLine)) = ''1992-079A''" by code_simp+
  note t = C9_amended[of convMin decimalFloat sixFieldTime "[satTypeLine, antennaEnd]"
      "antennaZero\<lparr>Type := ''BLOCK IIA'', S1 := ''G01'', S2 := ''G032'', S3 := ''1992-079A''\<rparr>"
      None "[]" "[]" satTypeLine antennaZero 0 0 0 0 "[antennaEnd]"]
  from t satBlock_scan a b c show ?thesis by simp
qed

text \<open>
  Claim C9, counterexample. An antenna with the satellite identifiers and the COSPAR
  identifier populated does not report itself as a satellite antenna: its record is
  returned with the same flag as that of a receiver antenna with a serial number only.
\<close>

theorem C9_counterexample:
  "scanOneAntenna convMin decimalFloat sixFieldTime [satTypeLine, antennaEnd]
   = Inr (\<lparr>Type = ''BLOCK IIA'', S1 = ''G01'', S2 = ''G032'', S3 = ''1992-079A'', PCV = [],
            isSatelliteAntenna = False, ValidFrom = zeroTime, ValidUntil = zeroTime,
            SinexCode = []\<rparr>, None, [], [])
   \<and> scanOneAntenna convMin decimalFloat sixFieldTime [recTypeLine, antennaEnd]
   = Inr (\<lparr>Type = ''AOAD/M_T        NONE'', S1 = ''1234'', S2 = [], S3 = [], PCV = [],
            isSatelliteAntenna = False, ValidFrom = zeroTime, ValidUntil = zeroTime,
            SinexCode = []\<rparr>, None, [], [])"
proof -
  have a: "scanOneAntenna convMin decimalFloat sixFieldTime [satTypeLine, antennaEnd]
   = Inr (\<lparr>Type = ''BLOCK IIA'', S1 = ''G01'', S2 = ''G032'', S3 = ''1992-079A'', PCV = [],
            isSatelliteAntenna = False, ValidFrom = zeroTime, ValidUntil = zeroTime,
            SinexCode = []\<rparr>, None, [], [])"
    by code_simp
  have b: "scanOneAntenna convMin decimalFloat sixFieldTime [recTypeLine, antennaEnd]
   = Inr (\<lparr>Type = ''AOAD/M_T        NONE'', S1 = ''1234'', S2 = [], S3 = [], PCV = [],
            isSatelliteAntenna = False, ValidFrom = zeroTime, ValidUntil = zeroTime,
            SinexCode = []\<rparr>, None, [], [])"
    by code_simp
  from a b show ?thesis by simp
qed

text \<open>
  Claim C7, amended. A VALID FROM or VALID UNTIL line whose date field does not parse
  ends the parse of the enclosing antenna: the loop is left at that line, the lines up
  to END OF ANTENNA are skipped, and the date error is returned together with the
  record as it was before that line, with the date field at the zero time.
\<close>

theorem C7_amended:
  "(\<not> length buf < 61 \<and> TrimRight (drop 60 buf) = ''VALID FROM''
      \<and> parseDate parseTime (take 60 buf) = None
    \<longrightarrow> scanOneAntenna_loop conv parseFloat parseTime ant dazi zen1 zen2 dzen (buf # ls)
        = Inr (ant\<lparr>ValidFrom := zeroTime\<rparr>, Some (ErrTime (TrimSpace (take 60 buf))), [],
               scanOneAntenna_resync ls))
   \<and> (\<not> length buf < 61 \<and> TrimRight (drop 60 buf) = ''VALID UNTIL''
      \<and> parseDate parseTime (take 60 buf) = None
    \<longrightarrow> scanOneAntenna_loop conv parseFloat parseTime ant dazi zen1 zen2 dzen (buf # ls)
        = Inr (ant\<lparr>ValidUntil := zeroTime\<rparr>, Some (ErrTime (TrimSpace (take 60 buf))), [],
               scanOneAntenna_resync ls))"
  by (simp add: scanOneAntenna_body_ValidFrom_error scanOneAntenna_body_ValidUntil_error bindF_def)

text \<open>
  Claim C7, counterexample. After a VALID FROM line with two fields only, the antenna
  parse returns the date error and the SINEX CODE line that follows is not read; with a
  comment in place of that line the SINEX code is read and no error is returned.
\<close>

theorem C7_counterexample:
  "scanOneAntenna convMin decimalFloat sixFieldTime
     [satTypeLine, badValidFromLine, sinexLine, antennaEnd, antennaStart]
   = Inr (antennaZero\<lparr>Type := ''BLOCK IIA'', S1 := ''G01'', S2 := ''G032'', S3 := ''1992-079A''\<rparr>,
          Some (ErrTime ''1992    11''), [], [antennaStart])
   \<and> scanOneAntenna convMin decimalFloat sixFieldTime
     [satTypeLine, commentLine, sinexLine, antennaEnd, antennaStart]
   = Inr (antennaZero\<lparr>Type := ''BLOCK IIA'', S1 := ''G01'', S2 := ''G032'', S3 := ''1992-079A'',
                        SinexCode := ''IGS14_2247''\<rparr>,
          None, [], [antennaStart])"
proof -
  have a: "scanOneAntenna convMin decimalFloat sixFieldTime
     [satTypeLine, badValidFromLine, sinexLine, antennaEnd, antennaStart]
   = Inr (antennaZero\<lparr>Type := ''BLOCK IIA'', S1 := ''G01'', S2 := ''G032'', S3 := ''1992-079A''\<rparr>,
          Some (ErrTime ''1992    11''), [], [antennaStart])"
    by code_simp
  have b: "scanOneAntenna convMin decimalFloat sixFieldTime
     [satTypeLine, commentLine, sinexLine, antennaEnd, antennaStart]
   = Inr (antennaZero\<lparr>Type := ''BLOCK IIA'', S1 := ''G01'', S2 := ''G032'', S3 := ''1992-079A'',
                        SinexCode := ''IGS14_2247''\<rparr>,
          None, [], [antennaStart])"
    by code_simp
  from a b show ?thesis by simp
qed

definition badValidUntilLine :: string where
  "badValidUntilLine = line60 ''  2008    10    16    23    59   xx'' ''VALID UNTIL''"

text \<open>
  Claim C7, witness: a VALID FROM line with two fields and a VALID UNTIL line whose
  seconds are not a number, each followed by a SINEX CODE line that is skipped.
\<close>

theorem C7_amended_witness:
  "scanOneAntenna_loop convMin decimalFloat sixFieldTime
     (antennaZero\<lparr>Type := ''BLOCK IIA''\<rparr>) 0 0 0 0 [badValidFromLine, sinexLine, antennaEnd, antennaStart]
   = Inr (antennaZero\<lparr>Type := ''BLOCK IIA''\<rparr>, Some (ErrTime ''1992    11''), [], [antennaStart])
   \<and> scanOneAntenna_loop convMin decimalFloat sixFieldTime
     (antennaZero\<lparr>Type := ''BLOCK IIA''\<rparr>) 0 0 0 0 [badValidUntilLine, sinexLine, antennaEnd, antennaStart]
   = Inr (antennaZero\<lparr>Type := ''BLOCK IIA''\<rparr>,
          Some (ErrTime ''2008    10    16    23    59   xx''), [], [antennaStart])"
proof -
  have a: "\<not> length badValidFromLine < 61" "\<not> length badValidUntilLine < 61"
    by code_simp+
  have b: "TrimRight (drop 60 badValidFromLine) = ''VALID FROM''"
    "TrimRight (drop 60 badValidUntilLine) = ''VALID UNTIL''" by code_simp+
  have c: "parseDate sixFieldTime (take 60 badValidFromLine) = None"
    "parseDate sixFieldTime (take 60 badValidUntilLine) = None" by code_simp+
  have d: "TrimSpace (take 60 badValidFromLine) = ''1992    11''"
    "TrimSpace (take 60 badValidUntilLine) = ''2008    10    16    23    59   xx''" by code_simp+
  have e: "scanOneAntenna_resync [sinexLine, antennaEnd, antennaStart] = [antennaStart]"
    by code_simp
  have z: "antennaZero\<lparr>Type := ''BLOCK IIA'', ValidFrom := zeroTime\<rparr> = antennaZero\<lparr>Type := ''BLOCK IIA''\<rparr>"
    "antennaZero\<lparr>Type := ''BLOCK IIA'', ValidUntil := zeroTime\<rparr> = antennaZero\<lparr>Type := ''BLOCK IIA''\<rparr>"
    by (simp_all add: antennaZero_def)
  from C7_amended[of badValidFromLine sixFieldTime convMin decimalFloat "antennaZero\<lparr>Type := ''BLOCK IIA''\<rparr>"
      0 0 0 0 "[sinexLine, antennaEnd, antennaStart]"] a b c d e z
  have f: "scanOneAntenna_loop convMin decimalFloat sixFieldTime
     (antennaZero\<lparr>Type := ''BLOCK IIA''\<rparr>) 0 0 0 0 [badValidFromLine, sinexLine, antennaEnd, antennaStart]
   = Inr (antennaZero\<lparr>Type := ''BLOCK IIA''\<rparr>, Some (ErrTime ''1992    11''), [], [antennaStart])"
    by simp
  from C7_amended[of badValidUntilLine sixFieldTime convMin decimalFloat "antennaZero\<lparr>Type := ''BLOCK IIA''\<rparr>"
      0 0 0 0 "[sinexLine, antennaEnd, antennaStart]"] a b c d e z
  have g: "scanOneAntenna_loop convMin decimalFloat sixFieldTime
     (antennaZero\<lparr>Type := ''BLOCK IIA''\<rparr>) 0 0 0 0 [badValidUntilLine, sinexLine, antennaEnd, antennaStart]
   = Inr (antennaZero\<lparr>Type := ''BLOCK IIA''\<rparr>,
          Some (ErrTime ''2008    10    16    23    59   xx''), [], [antennaStart])"
    by simp
  from f g show ?thesis by simp
qed

section \<open>Properties of the antenna block parser\<close>

text \<open>
  Claim C1, amended. Whenever a line carries the START OF ANTENNA label, the record that
  the per-antenna parser returns for the block is appended to the output, with or without
  an error; an error is written to the log and nothing else. Scanning goes on with the
  lines that the per-antenna parser left, so the output continues with the antennas of
  the rest of the input.
\<close>

theorem C1_amended:
  assumes "HasPrefix (drop 60 buf) ''START OF ANTENNA''"
    and "scanOneAntenna conv parseFloat parseTime ls = Inr (a, e, lg1, rest)"
  shows "ReadAntexData conv parseFloat parseTime (buf # ls)
     = bindF (ReadAntexData conv parseFloat parseTime rest) (\<lambda>(ants, lg2).
         Inr (a # ants, lg1 @ (case e of None \<Rightarrow> [] | Some x \<Rightarrow> [LogError x]) @ lg2))"
proof -
  have "drop 60 buf \<noteq> []" using assms(1) by (auto simp: HasPrefix_def)
  then have len: "\<not> length buf < 61" by simp
  then have sl: "sliceFrom buf 60 = Inr (drop 60 buf)" by (simp add: sliceFrom_def)
  show ?thesis
    using assms len sl
    by (cases "ReadAntexData conv parseFloat parseTime rest")
       (auto simp: ReadAntexData.simps(2) bindF_def)
qed

definition badDaziBlock :: "string list" where
  "badDaziBlock = [satTypeLine, badDaziLine, zenLine, antennaEnd]"

definition recBlock :: "string list" where
  "recBlock = [recTypeLine, antennaEnd]"

text \<open>
  Claim C1, counterexample. The first antenna of this input has a DAZI value that is not
  a number, and its parse returns an error. The output still holds the record of that
  antenna, followed by the record of the second antenna.
\<close>

theorem C1_counterexample:
  "scanOneAntenna convMin decimalFloat sixFieldTime (badDaziBlock @ antennaStart # recBlock)
     = Inr (antennaZero\<lparr>Type := ''BLOCK IIA'', S1 := ''G01'', S2 := ''G032'', S3 := ''1992-079A''\<rparr>,
            Some (ErrSyntax ''abc''), [], antennaStart # recBlock)
   \<and> ReadAntexData convMin decimalFloat sixFieldTime
       (antennaStart # badDaziBlock @ antennaStart # recBlock)
     = Inr ([antennaZero\<lparr>Type := ''BLOCK IIA'', S1 := ''G01'', S2 := ''G032'', S3 := ''1992-079A''\<rparr>,
             antennaZero\<lparr>Type := ''AOAD/M_T        NONE'', S1 := ''1234''\<rparr>],
            [LogError (ErrSyntax ''abc'')])"
proof -
  have a: "scanOneAntenna convMin decimalFloat sixFieldTime (badDaziBlock @ antennaStart # recBlock)
     = Inr (antennaZero\<lparr>Type := ''BLOCK IIA'', S1 := ''G01'', S2 := ''G032'', S3 := ''1992-079A''\<rparr>,
            Some (ErrSyntax ''abc''), [], antennaStart # recBlock)"
    by code_simp
  have b: "ReadAntexData convMin decimalFloat sixFieldTime
       (antennaStart # badDaziBlock @ antennaStart # recBlock)
     = Inr ([antennaZero\<lparr>Type := ''BLOCK IIA'', S1 := ''G01'', S2 := ''G032'', S3 := ''1992-079A''\<rparr>,
             antennaZero\<lparr>Type := ''AOAD/M_T        NONE'', S1 := ''1234''\<rparr>],
            [LogError (ErrSyntax ''abc'')])"
    by code_simp
  from a b show ?thesis by simp
qed

text \<open>
  Claim C1, witness: an antenna block that the input ends in, so that its parse returns
  the error that the end label was not found; its record is the output.
\<close>

theorem C1_amended_witness:
  "scanOneAntenna convMin decimalFloat sixFieldTime [satTypeLine]
     = Inr (antennaZero\<lparr>Type := ''BLOCK IIA'', S1 := ''G01'', S2 := ''G032'', S3 := ''1992-079A''\<rparr>,
            Some ErrEndLabelNotFound, [], [])
   \<and> ReadAntexData convMin decimalFloat sixFieldTime [antennaStart, satTypeLine]
     = Inr ([antennaZero\<lparr>Type := ''BLOCK IIA'', S1 := ''G01'', S2 := ''G032'', S3 := ''1992-079A''\<rparr>],
            [LogError ErrEndLabelNotFound])"
proof -
  have hp: "HasPrefix (drop 60 antennaStart) ''START OF ANTENNA''" by code_simp
  have sc: "scanOneAntenna convMin decimalFloat sixFieldTime [satTypeLine]
     = Inr (antennaZero\<lparr>Type := ''BLOCK IIA'', S1 := ''G01'', S2 := ''G032'', S3 := ''1992-079A''\<rparr>,
            Some ErrEndLabelNotFound, [], [])"
    by code_simp
  from sc C1_amended[OF hp sc] show ?thesis by (simp add: bindF_def)
qed

lemma ReadAntexData_blank:
  assumes "length buf = 60"
  shows "ReadAntexData conv parseFloat parseTime (buf # ls)
     = bindF (ReadAntexData conv parseFloat parseTime ls) (\<lambda>(ants, lg).
         Inr (ants, WarnNoAntexData buf # lg))"
  using assms
  by (cases "ReadAntexData conv parseFloat parseTime ls")
     (auto simp: ReadAntexData.simps(2) bindF_def sliceFrom_def HasPrefix_def)

text \<open>
  A line shorter than 60 characters met in the scan for antenna starts is logged and then
  sliced from column 60, which panics.
\<close>

lemma ReadAntexData_short_panics:
  "length buf < 60 \<Longrightarrow> ReadAntexData conv parseFloat parseTime (buf # ls) = Inl SliceBounds"
  by (simp add: ReadAntexData.simps(2) sliceFrom_def bindF_def)

text \<open>
  Claim C2, amended. Inside an antenna block a line shorter than 61 characters is never
  taken as a structural marker, whatever its text: the per-antenna parser writes a
  warning, stops at that line and returns the record built so far with the error that
  the end label was not found, leaving the lines that follow to the scan for antenna
  starts. In that scan a line of exactly 60 characters is skipped after a warning.
\<close>

theorem C2_amended:
  "(length buf < 61
    \<longrightarrow> scanOneAntenna_loop conv parseFloat parseTime ant dazi zen1 zen2 dzen (buf # ls)
        = Inr (ant, Some ErrEndLabelNotFound, [WarnNoLabel buf], ls))
   \<and> (length buf = 60
    \<longrightarrow> ReadAntexData conv parseFloat parseTime (buf # ls)
        = bindF (ReadAntexData conv parseFloat parseTime ls) (\<lambda>(ants, lg).
            Inr (ants, WarnNoAntexData buf # lg)))"
  by (simp add: scanOneAntenna_body_short ReadAntexData_blank bindF_def)

definition blankLine :: string where
  "blankLine = replicate 60 (CHR '' '')"

text \<open>
  Claim C2, witness: a short line reading END OF ANTENNA inside a block is no end label,
  and a line of 60 blanks before an antenna is skipped with a warning.
\<close>

theorem C2_amended_witness:
  "scanOneAntenna_loop convMin decimalFloat sixFieldTime antennaZero 0 0 0 0
       [''END OF ANTENNA'', sinexLine, antennaEnd]
     = Inr (antennaZero, Some ErrEndLabelNotFound, [WarnNoLabel ''END OF ANTENNA''],
            [sinexLine, antennaEnd])
   \<and> ReadAntexData convMin decimalFloat sixFieldTime [blankLine, antennaStart, recTypeLine, antennaEnd]
     = Inr ([antennaZero\<lparr>Type := ''AOAD/M_T        NONE'', S1 := ''1234''\<rparr>],
            [WarnNoAntexData blankLine])"
proof -
  have a: "length ''END OF ANTENNA'' < 61" by simp
  have b: "length blankLine = 60" by (simp add: blankLine_def)
  have c: "ReadAntexData convMin decimalFloat sixFieldTime [antennaStart, recTypeLine, antennaEnd]
     = Inr ([antennaZero\<lparr>Type := ''AOAD/M_T        NONE'', S1 := ''1234''\<rparr>], [])"
    by code_simp
  from C2_amended[of "''END OF ANTENNA''" convMin decimalFloat sixFieldTime antennaZero 0 0 0 0
      "[sinexLine, antennaEnd]"] a
  have d: "scanOneAntenna_loop convMin decimalFloat sixFieldTime antennaZero 0 0 0 0
       [''END OF ANTENNA'', sinexLine, antennaEnd]
     = Inr (antennaZero, Some ErrEndLabelNotFound, [WarnNoLabel ''END OF ANTENNA''],
            [sinexLine, antennaEnd])" by blast
  from C2_amended[of blankLine convMin decimalFloat sixFieldTime antennaZero 0 0 0 0
      "[antennaStart, recTypeLine, antennaEnd]"] b c
  have e: "ReadAntexData convMin decimalFloat sixFieldTime [blankLine, antennaStart, recTypeLine, antennaEnd]
     = Inr ([antennaZero\<lparr>Type := ''AOAD/M_T        NONE'', S1 := ''1234''\<rparr>],
            [WarnNoAntexData blankLine])" by (simp add: bindF_def)
  from d e show ?thesis by simp
qed

text \<open>
  Claim C2, counterexample. A short line inside an antenna block is not treated like a
  comment: the antenna parse fails at it and the SINEX CODE line after it is not read,
  whereas the same text on a COMMENT line is skipped and the parse succeeds.
\<close>

theorem C2_counterexample:
  "scanOneAntenna convMin decimalFloat sixFieldTime
     [satTypeLine, ''a short line'', sinexLine, antennaEnd, antennaStart]
   = Inr (antennaZero\<lparr>Type := ''BLOCK IIA'', S1 := ''G01'', S2 := ''G032'', S3 := ''1992-079A''\<rparr>,
          Some ErrEndLabelNotFound, [WarnNoLabel ''a short line''],
          [sinexLine, antennaEnd, antennaStart])
   \<and> scanOneAntenna convMin decimalFloat sixFieldTime
     [satTypeLine, line60 ''a short line'' ''COMMENT'', sinexLine, antennaEnd, antennaStart]
   = Inr (antennaZero\<lparr>Type := ''BLOCK IIA'', S1 := ''G01'', S2 := ''G032'', S3 := ''1992-079A'',
                        SinexCode := ''IGS14_2247''\<rparr>,
          None, [], [antennaStart])"
proof -
  have a: "scanOneAntenna convMin decimalFloat sixFieldTime
     [satTypeLine, ''a short line'', sinexLine, antennaEnd, antennaStart]
   = Inr (antennaZero\<lparr>Type := ''BLOCK IIA'', S1 := ''G01'', S2 := ''G032'', S3 := ''1992-079A''\<rparr>,
          Some ErrEndLabelNotFound, [WarnNoLabel ''a short line''],
          [sinexLine, antennaEnd, antennaStart])"
    by code_simp
  have b: "scanOneAntenna convMin decimalFloat sixFieldTime
     [satTypeLine, line60 ''a short line'' ''COMMENT'', sinexLine, antennaEnd, antennaStart]
   = Inr (antennaZero\<lparr>Type := ''BLOCK IIA'', S1 := ''G01'', S2 := ''G032'', S3 := ''1992-079A'',
                        SinexCode := ''IGS14_2247''\<rparr>,
          None, [], [antennaStart])"
    by code_simp
  from a b show ?thesis by simp
qed

section \<open>The division by the zenith step\<close>




















end
